theory Spec2Isabelle
  imports Complex_Main "HOL-Library.Char_ord" "HOL-Library.List_Lexorder" "HOL-Library.Sublist"
begin

section \<open>Go strings\<close>

text \<open>
  A Go string is a sequence of bytes, so it is modelled as \<^typ>\<open>string\<close> (a list of
  8-bit characters); text outside ASCII is written as its UTF-8 bytes.  The order on strings
  is the byte-wise lexicographic order, which is what Go's string comparison and
  \<^verbatim>\<open>sort.Strings\<close> use.
\<close>

text \<open>\<^verbatim>\<open>strings.Join(elems, sep)\<close>.\<close>

fun Join :: "string list \<Rightarrow> string \<Rightarrow> string" where
  "Join [] sep = []"
| "Join [x] sep = x"
| "Join (x # y # ys) sep = x @ sep @ Join (y # ys) sep"

text \<open>
  The UTF-8 encodings of the runes for which \<^verbatim>\<open>unicode.IsSpace\<close> holds: tab, line feed,
  vertical tab, form feed, carriage return, space, U+0085, U+00A0, U+1680, U+2000 to U+200A,
  U+2028, U+2029, U+202F, U+205F and U+3000.
\<close>

definition spaceRunes :: "string list" where
  "spaceRunes =
    [[CHR 0x09], [CHR 0x0A], [CHR 0x0B], [CHR 0x0C], [CHR 0x0D], [CHR 0x20],
     [CHR 0xC2, CHR 0x85], [CHR 0xC2, CHR 0xA0],
     [CHR 0xE1, CHR 0x9A, CHR 0x80],
     [CHR 0xE2, CHR 0x80, CHR 0x80], [CHR 0xE2, CHR 0x80, CHR 0x81],
     [CHR 0xE2, CHR 0x80, CHR 0x82], [CHR 0xE2, CHR 0x80, CHR 0x83],
     [CHR 0xE2, CHR 0x80, CHR 0x84], [CHR 0xE2, CHR 0x80, CHR 0x85],
     [CHR 0xE2, CHR 0x80, CHR 0x86], [CHR 0xE2, CHR 0x80, CHR 0x87],
     [CHR 0xE2, CHR 0x80, CHR 0x88], [CHR 0xE2, CHR 0x80, CHR 0x89],
     [CHR 0xE2, CHR 0x80, CHR 0x8A],
     [CHR 0xE2, CHR 0x80, CHR 0xA8], [CHR 0xE2, CHR 0x80, CHR 0xA9],
     [CHR 0xE2, CHR 0x80, CHR 0xAF], [CHR 0xE2, CHR 0x81, CHR 0x9F],
     [CHR 0xE3, CHR 0x80, CHR 0x80]]"

text \<open>
  The number of bytes of the white-space rune that \<open>s\<close> starts with (one of the byte
  sequences \<open>rs\<close>), or 0 when it starts with none.
\<close>

definition leadingWidth :: "string list \<Rightarrow> string \<Rightarrow> nat" where
  "leadingWidth rs s = (case List.find (\<lambda>e. prefix e s) rs of None \<Rightarrow> 0 | Some e \<Rightarrow> length e)"

function stripLeading :: "string list \<Rightarrow> string \<Rightarrow> string" where
  "stripLeading rs s =
     (if leadingWidth rs s = 0 then s else stripLeading rs (drop (leadingWidth rs s) s))"
  by pat_completeness auto
termination
proof (relation "measure (\<lambda>(rs, s). length s)")
  show "wf (measure (\<lambda>(rs, s). length s))" by simp
next
  fix rs :: "string list" and s :: string
  assume "leadingWidth rs s \<noteq> 0"
  moreover have "leadingWidth rs s \<le> length s"
    by (auto simp: leadingWidth_def find_Some_iff prefix_length_le split: option.splits)
  ultimately show "((rs, drop (leadingWidth rs s) s), (rs, s)) \<in> measure (\<lambda>(rs, s). length s)"
    by simp
qed

declare stripLeading.simps [simp del]

text \<open>
  \<^verbatim>\<open>strings.TrimSpace(s)\<close>: the leading and then the trailing white-space runes are cut
  off.  A rune at the end of \<open>s\<close> is a white-space rune exactly when \<open>s\<close> ends with one of
  the encodings above, so the trailing cut is the leading cut on the reversed bytes.
\<close>

definition TrimSpace :: "string \<Rightarrow> string" where
  "TrimSpace s = rev (stripLeading (map rev spaceRunes) (rev (stripLeading spaceRunes s)))"

section \<open>Messages of the caller\<close>

text \<open>
  The roles and content parts of the chat library's messages.  \<open>ChatMessageTypeOther\<close> stands
  for every role string without a constant of its own, \<open>OtherContent\<close> for every content
  part that is neither text, a tool call nor a tool call response.
\<close>

datatype ChatMessageType =
    ChatMessageTypeAI
  | ChatMessageTypeHuman
  | ChatMessageTypeSystem
  | ChatMessageTypeGeneric
  | ChatMessageTypeFunction
  | ChatMessageTypeTool
  | ChatMessageTypeOther

record FunctionCall =
  fcName :: string
  Arguments :: string

datatype ContentPart =
    TextContent string
  | ToolCall "FunctionCall option"
  | ToolCallResponse string string
  | OtherContent

record MessageContent =
  Role :: ChatMessageType
  Parts :: "ContentPart list"

section \<open>JSON values and stream payloads\<close>

text \<open>
  What \<^verbatim>\<open>json.Unmarshal\<close> stores in a value of type \<^verbatim>\<open>any\<close>.  An object is a Go
  map, written as an association list read with \<^const>\<open>map_of\<close>.  A number is decoded to a
  float; no arithmetic is done on it here, so it is kept as the rational it denotes.
\<close>

datatype json =
    JNull
  | JBool bool
  | JNumber rat
  | JString string
  | JArray "json list"
  | JObject "(string \<times> json) list"

type_synonym payload = "(string \<times> json) list"

section \<open>Errors\<close>

text \<open>
  The errors that the client returns, one constructor for each message, with what the message
  carries: the text of a wrapped error, the decoded map of a CLI error line, and for a failed
  subprocess the error of waiting together with the trimmed standard error that was captured
  (empty when there was none).  \<open>CallbackError\<close> is an error made by the caller's streaming callback.
\<close>

datatype error =
    ErrCLINotFound string
  | ErrEmptyPrompt
  | NilReceiver
  | UnsupportedContentPart
  | StdoutPipeError string
  | StderrPipeError string
  | StartCliError string
  | ParseJsonError string
  | MissingMessage
  | MissingContent
  | UnsupportedContentType
  | CliError payload
  | ReadStdoutError string
  | CliFailed string string
  | CallbackError string

section \<open>The prompt builder\<close>

text \<open>One part of a message as text (the body of the loop of \<^verbatim>\<open>messageToText\<close>).\<close>

fun partToText :: "ContentPart \<Rightarrow> error + string" where
  "partToText (TextContent t) = Inr t"
| "partToText (ToolCall (Some fc)) = Inr (''[ToolCall] '' @ fcName fc @ '' '' @ Arguments fc)"
| "partToText (ToolCall None) = Inr ''[ToolCall]''"
| "partToText (ToolCallResponse name content) =
     (if TrimSpace name = [] then Inr (''[ToolResult] '' @ content)
      else Inr (''[ToolResult:'' @ TrimSpace name @ ''] '' @ content))"
| "partToText OtherContent = Inl UnsupportedContentPart"

text \<open>
  The loop of \<^verbatim>\<open>messageToText\<close>: \<open>i\<close> is the index of the part, \<open>b\<close> the builder.
\<close>

fun partsToText :: "nat \<Rightarrow> ContentPart list \<Rightarrow> string \<Rightarrow> error + string" where
  "partsToText i [] b = Inr b"
| "partsToText i (p # ps) b =
     (let b1 = (if 0 < i then b @ ''\<newline>'' else b) in
      case partToText p of
        Inl e \<Rightarrow> Inl e
      | Inr t \<Rightarrow> partsToText (Suc i) ps (b1 @ t))"

definition messageToText :: "MessageContent \<Rightarrow> error + string" where
  "messageToText msg = (if Parts msg = [] then Inr [] else partsToText 0 (Parts msg) [])"

text \<open>
  The loop of \<^verbatim>\<open>splitSystemMessages\<close>, with the system parts and the other messages
  collected so far.
\<close>

fun splitLoop :: "MessageContent list \<Rightarrow> string list \<Rightarrow> MessageContent list
    \<Rightarrow> error + (string list \<times> MessageContent list)" where
  "splitLoop [] systemParts others = Inr (systemParts, others)"
| "splitLoop (msg # msgs) systemParts others =
     (if Role msg = ChatMessageTypeSystem then
        (case messageToText msg of
           Inl e \<Rightarrow> Inl e
         | Inr t \<Rightarrow>
             if TrimSpace t \<noteq> [] then splitLoop msgs (systemParts @ [t]) others
             else splitLoop msgs systemParts others)
      else splitLoop msgs systemParts (others @ [msg]))"

definition splitSystemMessages :: "MessageContent list \<Rightarrow> error + (string \<times> MessageContent list)" where
  "splitSystemMessages messages =
     (case splitLoop messages [] [] of
        Inl e \<Rightarrow> Inl e
      | Inr (systemParts, others) \<Rightarrow> Inr (Join systemParts ''\<newline>\<newline>'', others))"

definition mergeSystemPrompt :: "string \<Rightarrow> string \<Rightarrow> string" where
  "mergeSystemPrompt base extra =
     (let base1 = TrimSpace base; extra1 = TrimSpace extra in
      if base1 = [] then extra1
      else if extra1 = [] then base1
      else base1 @ ''\<newline>\<newline>'' @ extra1)"

definition rolePrefix :: "ChatMessageType \<Rightarrow> string" where
  "rolePrefix role =
     (case role of
        ChatMessageTypeHuman \<Rightarrow> ''User''
      | ChatMessageTypeAI \<Rightarrow> ''Assistant''
      | ChatMessageTypeFunction \<Rightarrow> ''Function''
      | ChatMessageTypeTool \<Rightarrow> ''Tool''
      | ChatMessageTypeGeneric \<Rightarrow> ''User''
      | ChatMessageTypeSystem \<Rightarrow> ''System''
      | ChatMessageTypeOther \<Rightarrow> [])"

fun promptLoop :: "MessageContent list \<Rightarrow> string list \<Rightarrow> error + string list" where
  "promptLoop [] parts = Inr parts"
| "promptLoop (msg # msgs) parts =
     (case messageToText msg of
        Inl e \<Rightarrow> Inl e
      | Inr t \<Rightarrow>
          (let text = TrimSpace t in
           if text = [] then promptLoop msgs parts
           else if rolePrefix (Role msg) \<noteq> [] then
             promptLoop msgs (parts @ [rolePrefix (Role msg) @ '': '' @ text])
           else promptLoop msgs (parts @ [text])))"

definition buildPrompt :: "MessageContent list \<Rightarrow> error + string" where
  "buildPrompt messages =
     (if messages = [] then Inr []
      else case promptLoop messages [] of
             Inl e \<Rightarrow> Inl e
           | Inr parts \<Rightarrow> Inr (Join parts ''\<newline>\<newline>''))"

section \<open>Configuration\<close>

text \<open>
  \<^verbatim>\<open>OutputMode\<close> and \<^verbatim>\<open>ToolEventType\<close> are integer types with named constants
  (\<^verbatim>\<open>iota\<close>), so a value outside the named ones is possible and is kept.
\<close>

type_synonym OutputMode = int

definition OutputModeText :: OutputMode where "OutputModeText = 0"
definition OutputModeFull :: OutputMode where "OutputModeFull = 2"

type_synonym ToolEventType = int

definition ToolEventUse :: ToolEventType where "ToolEventUse = 0"
definition ToolEventResult :: ToolEventType where "ToolEventResult = 1"

text \<open>
  A tool event.  \<open>Input\<close> is \<open>None\<close> for a nil map.  The time stamp of the event is the
  wall-clock time and is left out.
\<close>

record ToolEvent =
  Type :: ToolEventType
  ToolName :: string
  ToolID :: string
  Input :: "payload option"
  Output :: string

text \<open>
  The options.  A map from strings to strings is an association list with distinct keys,
  whose order is the order in which \<^verbatim>\<open>range\<close> visits the map on this run; a nil map reads
  like the empty one.  \<open>ToolEventHook\<close> says whether a hook is set: a hook returns nothing,
  so all that is observed of it are its calls.
\<close>

record Options =
  CLIPath :: string
  Model :: string
  SystemPrompt :: string
  Cwd :: string
  PermissionMode :: string
  Tools :: "string list"
  AllowedTools :: "string list"
  DisallowedTools :: "string list"
  Env :: "(string \<times> string) list"
  ExtraArgs :: "(string \<times> string) list"
  MaxBufferSize :: int
  OutputMode :: OutputMode
  ToolEventHook :: bool
  SessionID :: string
  Resume :: bool
  ForkSession :: bool
  NoSessionPersistence :: bool

type_synonym Option = "Options \<Rightarrow> Options"

definition defaultPermissionMode :: string where
  "defaultPermissionMode = ''bypassPermissions''"

definition defaultMaxBufferSize :: int where
  "defaultMaxBufferSize = 1024 * 1024"

definition defaultOptions :: Options where
  "defaultOptions =
     \<lparr>CLIPath = [], Model = [], SystemPrompt = [], Cwd = [],
      PermissionMode = defaultPermissionMode,
      Tools = [], AllowedTools = [], DisallowedTools = [],
      Env = [], ExtraArgs = [],
      MaxBufferSize = defaultMaxBufferSize,
      OutputMode = 0, ToolEventHook = False,
      SessionID = [], Resume = False, ForkSession = False, NoSessionPersistence = False\<rparr>"

definition WithCLIPath :: "string \<Rightarrow> Option" where
  "WithCLIPath path o1 = o1\<lparr>CLIPath := path\<rparr>"

definition WithModel :: "string \<Rightarrow> Option" where
  "WithModel model o1 = o1\<lparr>Model := model\<rparr>"

definition WithSystemPrompt :: "string \<Rightarrow> Option" where
  "WithSystemPrompt prompt o1 = o1\<lparr>SystemPrompt := prompt\<rparr>"

definition WithCwd :: "string \<Rightarrow> Option" where
  "WithCwd cwd o1 = o1\<lparr>Cwd := cwd\<rparr>"

definition WithPermissionMode :: "string \<Rightarrow> Option" where
  "WithPermissionMode mode o1 = o1\<lparr>PermissionMode := mode\<rparr>"

definition WithTools :: "string list \<Rightarrow> Option" where
  "WithTools tools o1 = o1\<lparr>Tools := [] @ tools\<rparr>"

definition WithAllowedTools :: "string list \<Rightarrow> Option" where
  "WithAllowedTools tools o1 = o1\<lparr>AllowedTools := [] @ tools\<rparr>"

definition WithDisallowedTools :: "string list \<Rightarrow> Option" where
  "WithDisallowedTools tools o1 = o1\<lparr>DisallowedTools := [] @ tools\<rparr>"

definition WithEnv :: "(string \<times> string) list \<Rightarrow> Option" where
  "WithEnv env o1 = o1\<lparr>Env := env\<rparr>"

definition WithExtraArgs :: "(string \<times> string) list \<Rightarrow> Option" where
  "WithExtraArgs args o1 = o1\<lparr>ExtraArgs := args\<rparr>"

definition WithMaxBufferSize :: "int \<Rightarrow> Option" where
  "WithMaxBufferSize sz o1 = (if 0 < sz then o1\<lparr>MaxBufferSize := sz\<rparr> else o1)"

definition WithOutputMode :: "OutputMode \<Rightarrow> Option" where
  "WithOutputMode mode o1 = o1\<lparr>OutputMode := mode\<rparr>"

definition WithToolEventHook :: "bool \<Rightarrow> Option" where
  "WithToolEventHook hook o1 = o1\<lparr>ToolEventHook := hook\<rparr>"

definition WithSessionID :: "string \<Rightarrow> Option" where
  "WithSessionID sessionID o1 = o1\<lparr>SessionID := sessionID\<rparr>"

definition WithResume :: "bool \<Rightarrow> Option" where
  "WithResume resume o1 = o1\<lparr>Resume := resume\<rparr>"

definition WithForkSession :: "bool \<Rightarrow> Option" where
  "WithForkSession fork o1 = o1\<lparr>ForkSession := fork\<rparr>"

definition WithNoSessionPersistence :: "bool \<Rightarrow> Option" where
  "WithNoSessionPersistence disabled o1 = o1\<lparr>NoSessionPersistence := disabled\<rparr>"

record LLM =
  cliPath :: string
  opts :: Options

section \<open>Client construction\<close>

text \<open>
  What \<^verbatim>\<open>New\<close> asks of the operating system: the home directory (\<open>None\<close> on an error),
  the search for an executable (\<open>Inl\<close> the error text) and the joining of path elements.
\<close>

record System =
  UserHomeDir :: "string option"
  LookPath :: "string \<Rightarrow> string + string"
  filepathJoin :: "string list \<Rightarrow> string"

definition resolveCLI :: "System \<Rightarrow> string \<Rightarrow> error + string" where
  "resolveCLI sys configured =
     (let cliPath0 = TrimSpace configured in
      if cliPath0 = [] then
        (let cliPath1 =
           (case UserHomeDir sys of
              Some home \<Rightarrow>
                (let defaultPath = filepathJoin sys [home, ''.local'', ''bin'', ''claude''] in
                 case LookPath sys defaultPath of Inr _ \<Rightarrow> defaultPath | Inl _ \<Rightarrow> cliPath0)
            | None \<Rightarrow> cliPath0) in
         if cliPath1 = [] then
           (case LookPath sys ''claude'' of
              Inl e \<Rightarrow> Inl (ErrCLINotFound e)
            | Inr path \<Rightarrow> Inr path)
         else Inr cliPath1)
      else Inr cliPath0)"

definition New :: "System \<Rightarrow> Option list \<Rightarrow> error + LLM" where
  "New sys optList =
     (let options = foldl (\<lambda>o1 opt. opt o1) defaultOptions optList in
      case resolveCLI sys (CLIPath options) of
        Inl e \<Rightarrow> Inl e
      | Inr path \<Rightarrow>
          (let options1 = (if PermissionMode options = [] then
                             options\<lparr>PermissionMode := defaultPermissionMode\<rparr> else options);
               options2 = (if MaxBufferSize options1 \<le> 0 then
                             options1\<lparr>MaxBufferSize := defaultMaxBufferSize\<rparr> else options1)
           in Inr \<lparr>cliPath = path, opts = options2\<rparr>))"

section \<open>The command builder\<close>

text \<open>
  The loop over the sorted keys of the extra arguments; a key that is looked up is always a
  key of the map, and a missing key would read as the empty string.
\<close>

fun extraLoop :: "(string \<times> string) list \<Rightarrow> string list \<Rightarrow> string list \<Rightarrow> string list" where
  "extraLoop m [] args = args"
| "extraLoop m (key # keys) args =
     (let val = (case map_of m key of Some v \<Rightarrow> v | None \<Rightarrow> []) in
      if val = [] then extraLoop m keys (args @ [''--'' @ key])
      else extraLoop m keys (args @ [''--'' @ key, val]))"

text \<open>
  The argument vector of \<^verbatim>\<open>buildCommand\<close>.  The keys of the extra arguments are collected
  in the order of the map's iteration and sorted.  The command line is also written to the
  log, which changes nothing here.
\<close>

definition buildCommand :: "LLM \<Rightarrow> string \<Rightarrow> string \<Rightarrow> string list" where
  "buildCommand l prompt systemPrompt =
     (let args0 = [''--output-format'', ''stream-json'', ''--verbose''];
          args1 = (if systemPrompt \<noteq> [] then args0 @ [''--system-prompt'', systemPrompt]
                   else args0);
          args2 = (if 0 < length (Tools (opts l))
                   then args1 @ [''--tools'', Join (Tools (opts l)) '','']
                   else args1);
          args3 = (if 0 < length (AllowedTools (opts l))
                   then args2 @ [''--allowedTools'', Join (AllowedTools (opts l)) '','']
                   else args2);
          args4 = (if 0 < length (DisallowedTools (opts l))
                   then args3 @ [''--disallowedTools'', Join (DisallowedTools (opts l)) '','']
                   else args3);
          args5 = (if Model (opts l) \<noteq> [] then args4 @ [''--model'', Model (opts l)]
                   else args4);
          args6 = (if PermissionMode (opts l) \<noteq> []
                   then args5 @ [''--permission-mode'', PermissionMode (opts l)]
                   else args5);
          args7 = (if 0 < length (ExtraArgs (opts l))
                   then extraLoop (ExtraArgs (opts l)) (sort (map fst (ExtraArgs (opts l)))) args6
                   else args6)
      in args7 @ [''--print'', ''--'', prompt])"

section \<open>The stream parser\<close>

text \<open>
  The two functions of the JSON library that the parser calls: decoding a line into a map
  (\<open>Inl\<close> the error text) and printing a map with indentation (the empty string when that
  fails, as the caller drops the error).
\<close>

record Json =
  Unmarshal :: "string \<Rightarrow> string + payload"
  MarshalIndent :: "payload option \<Rightarrow> string"

text \<open>A type assertion to a string on a field of a map: \<^verbatim>\<open>m[key].(string)\<close>.\<close>

definition stringAt :: "payload \<Rightarrow> string \<Rightarrow> string option" where
  "stringAt m key = (case map_of m key of Some (JString s) \<Rightarrow> Some s | _ \<Rightarrow> None)"

definition getStringField :: "payload \<Rightarrow> string \<Rightarrow> string" where
  "getStringField m key = (case stringAt m key of Some v \<Rightarrow> v | None \<Rightarrow> [])"

record toolUseInfo =
  ID :: string
  Name :: string
  tuInput :: "payload option"

text \<open>The loop over the content blocks, with the texts and tool uses collected so far.\<close>

fun extractBlocks :: "json list \<Rightarrow> string list \<Rightarrow> toolUseInfo list
    \<Rightarrow> string list \<times> toolUseInfo list" where
  "extractBlocks [] texts toolUses = (texts, toolUses)"
| "extractBlocks (JObject blockMap # blocks) texts toolUses =
     (let blockType = (case stringAt blockMap ''type'' of Some t \<Rightarrow> t | None \<Rightarrow> []) in
      if blockType = ''text'' then
        (let text = (case stringAt blockMap ''text'' of Some t \<Rightarrow> t | None \<Rightarrow> []) in
         if text \<noteq> [] then extractBlocks blocks (texts @ [text]) toolUses
         else extractBlocks blocks texts toolUses)
      else if blockType = ''tool_use'' then
        (let tu = \<lparr>ID = getStringField blockMap ''id'',
                   Name = getStringField blockMap ''name'',
                   tuInput = (case map_of blockMap ''input'' of
                                Some (JObject input) \<Rightarrow> Some input
                              | _ \<Rightarrow> None)\<rparr>
         in extractBlocks blocks texts (toolUses @ [tu]))
      else extractBlocks blocks texts toolUses)"
| "extractBlocks (block # blocks) texts toolUses = extractBlocks blocks texts toolUses"

definition extractAssistantContent :: "payload
    \<Rightarrow> string list \<times> toolUseInfo list \<times> error option" where
  "extractAssistantContent payload =
     (case map_of payload ''message'' of
        Some (JObject message) \<Rightarrow>
          (case map_of message ''content'' of
             None \<Rightarrow> ([], [], Some MissingContent)
           | Some (JArray blocks) \<Rightarrow>
               (case extractBlocks blocks [] [] of (texts, toolUses) \<Rightarrow> (texts, toolUses, None))
           | Some (JString blocks) \<Rightarrow>
               (if blocks = [] then ([], [], None) else ([blocks], [], None))
           | Some _ \<Rightarrow> ([], [], Some UnsupportedContentType))
      | _ \<Rightarrow> ([], [], Some MissingMessage))"

text \<open>
  The generation metadata is a map that is nil (\<open>None\<close>) until the first result line.
\<close>

definition mergeResultInfo :: "(string \<rightharpoonup> json) option \<Rightarrow> payload \<Rightarrow> (string \<rightharpoonup> json)" where
  "mergeResultInfo existing payload =
     (let e0 = (case existing of None \<Rightarrow> Map.empty | Some m \<Rightarrow> m);
          e1 = (case map_of payload ''total_cost_usd'' of
                  Some v \<Rightarrow> e0(''TotalCostUSD'' \<mapsto> v) | None \<Rightarrow> e0);
          e2 = (case map_of payload ''usage'' of
                  Some v \<Rightarrow> e1(''Usage'' \<mapsto> v) | None \<Rightarrow> e1);
          e3 = (case map_of payload ''result'' of
                  Some v \<Rightarrow> e2(''Result'' \<mapsto> v) | None \<Rightarrow> e2);
          e4 = (case map_of payload ''structured_output'' of
                  Some v \<Rightarrow> e3(''StructuredOutput'' \<mapsto> v) | None \<Rightarrow> e3)
      in e4)"

subsection \<open>Tool summaries\<close>

fun showNat :: "nat \<Rightarrow> string" where
  "showNat n = (if n < 10 then [char_of (48 + n)] else showNat (n div 10) @ [char_of (48 + n mod 10)])"

declare showNat.simps [simp del]

text \<open>The UTF-8 bytes of the wrench sign U+1F527 that starts every summary of a tool use.\<close>

definition wrench :: string where
  "wrench = [CHR 0xF0, CHR 0x9F, CHR 0x94, CHR 0xA7]"

text \<open>
  The bytes of\<^verbatim>\<open>"  " U+2514 U+2500 " " U+1F4E4 " "\<close>, the lead of the summary of a tool result.
\<close>

definition resultLead :: string where
  "resultLead = ''  '' @ [CHR 0xE2, CHR 0x94, CHR 0x94, CHR 0xE2, CHR 0x94, CHR 0x80] @ '' '' @
     [CHR 0xF0, CHR 0x9F, CHR 0x93, CHR 0xA4] @ '' ''"

definition inputString :: "payload option \<Rightarrow> string \<Rightarrow> string option" where
  "inputString input key = (case input of None \<Rightarrow> None | Some m \<Rightarrow> stringAt m key)"

text \<open>
  The fallback of \<^verbatim>\<open>formatToolUseSummary\<close>: the first of the keys with a non-empty string
  value gives the detail, cut to 57 bytes and three dots when longer than 60 bytes.
\<close>

fun commonDetail :: "payload option \<Rightarrow> string list \<Rightarrow> string" where
  "commonDetail input [] = []"
| "commonDetail input (key # keys) =
     (case inputString input key of
        Some v \<Rightarrow>
          (if v \<noteq> [] then (if 60 < length v then take 57 v @ ''...'' else v)
           else commonDetail input keys)
      | None \<Rightarrow> commonDetail input keys)"

definition firstOf :: "payload option \<Rightarrow> string \<Rightarrow> string \<Rightarrow> string" where
  "firstOf input k1 k2 =
     (case inputString input k1 of
        Some v \<Rightarrow> v
      | None \<Rightarrow> (case inputString input k2 of Some v \<Rightarrow> v | None \<Rightarrow> []))"

definition formatToolUseSummary :: "string \<Rightarrow> payload option \<Rightarrow> string" where
  "formatToolUseSummary toolName input =
     (let detail =
        (if toolName \<in> set [''Read'', ''read_file'', ''view_file'']
           then firstOf input ''file_path'' ''path''
         else if toolName \<in> set [''Write'', ''write_file'', ''create_file'']
           then firstOf input ''file_path'' ''path''
         else if toolName \<in> set [''Bash'', ''run_command'', ''execute_command'']
           then (case inputString input ''command'' of
                   Some cmd \<Rightarrow> (if 80 < length cmd then take 77 cmd @ ''...'' else cmd)
                 | None \<Rightarrow> [])
         else if toolName \<in> set [''TodoWrite'', ''task'', ''plan'']
           then (case inputString input ''todos'' of
                   Some todos \<Rightarrow>
                     showNat (Suc (length (filter (\<lambda>c. c = CHR 0x0A) todos))) @ '' items''
                 | None \<Rightarrow> [])
         else if toolName \<in> set [''Skill'', ''use_skill'']
           then firstOf input ''skill_name'' ''name''
         else if toolName \<in> set [''Search'', ''grep'', ''find'']
           then firstOf input ''query'' ''pattern''
         else commonDetail input [''path'', ''file'', ''command'', ''query'', ''name'', ''url''])
      in if detail \<noteq> [] then ''\<newline>'' @ wrench @ '' '' @ toolName @ '': '' @ detail @ ''\<newline>''
         else ''\<newline>'' @ wrench @ '' '' @ toolName @ ''\<newline>'')"

subsection \<open>The state of the parser and the calls it makes\<close>

text \<open>
  The calls of the streaming callback and of the tool event hook are recorded in order.  The
  streaming callback gets a chunk and returns an error or nothing; it is a closure, so what
  it returns may depend on the calls made before, which it is given here.  \<open>None\<close> is a nil
  callback.
\<close>

datatype call = StreamingCall string | HookCall ToolEvent

type_synonym streamingFunc = "(call list \<Rightarrow> string \<Rightarrow> error option) option"

record state =
  builder :: string
  generationInfo :: "(string \<rightharpoonup> json) option"
  calls :: "call list"

definition handleToolEvent :: "Json \<Rightarrow> LLM \<Rightarrow> streamingFunc \<Rightarrow> ToolEvent \<Rightarrow> state \<Rightarrow> state" where
  "handleToolEvent J l sf event st =
     (let st1 = (if ToolEventHook (opts l) then st\<lparr>calls := calls st @ [HookCall event]\<rparr>
                 else st) in
      if OutputMode (opts l) = OutputModeText then st1
      else
        (let summary =
           (if Type event = ToolEventUse then
              (if OutputMode (opts l) = OutputModeFull then
                 ''\<newline>'' @ wrench @ '' ['' @ ToolName event @ ''] '' @ ToolID event @ ''\<newline>'' @
                   MarshalIndent J (Input event) @ ''\<newline>''
               else formatToolUseSummary (ToolName event) (Input event))
            else if Type event = ToolEventResult then
              (if OutputMode (opts l) = OutputModeFull then
                 (let output = (if 500 < length (Output event)
                                then take 500 (Output event) @ ''... (truncated)''
                                else Output event)
                  in resultLead @ output @ ''\<newline>'')
               else [])
            else [])
         in if summary \<noteq> [] then
              (let st2 = st1\<lparr>builder := builder st1 @ summary\<rparr> in
               case sf of
                 Some f \<Rightarrow> st2\<lparr>calls := calls st2 @ [StreamingCall summary]\<rparr>
               | None \<Rightarrow> st2)
            else st1))"

text \<open>
  The loop over the text blocks of one assistant line: the callback is called first, and an
  error of the callback ends the read before the text is appended.
\<close>

fun streamTexts :: "streamingFunc \<Rightarrow> string list \<Rightarrow> state \<Rightarrow> state \<times> error option" where
  "streamTexts sf [] st = (st, None)"
| "streamTexts sf (text # texts) st =
     (case sf of
        Some f \<Rightarrow>
          (let st1 = st\<lparr>calls := calls st @ [StreamingCall text]\<rparr> in
           case f (calls st) text of
             Some e \<Rightarrow> (st1, Some e)
           | None \<Rightarrow> streamTexts sf texts (st1\<lparr>builder := builder st1 @ text\<rparr>))
      | None \<Rightarrow> streamTexts sf texts (st\<lparr>builder := builder st @ text\<rparr>))"

fun dispatchToolUses :: "Json \<Rightarrow> LLM \<Rightarrow> streamingFunc \<Rightarrow> toolUseInfo list \<Rightarrow> state \<Rightarrow> state" where
  "dispatchToolUses J l sf [] st = st"
| "dispatchToolUses J l sf (tu # toolUses) st =
     dispatchToolUses J l sf toolUses
       (handleToolEvent J l sf
          \<lparr>Type = ToolEventUse, ToolName = Name tu, ToolID = ID tu, Input = tuInput tu,
           Output = []\<rparr> st)"

subsection \<open>Reading the stream\<close>

text \<open>The type discriminant of a line: \<^verbatim>\<open>payload["type"].(string)\<close>, empty when that fails.\<close>

definition msgTypeOf :: "payload \<Rightarrow> string" where
  "msgTypeOf payload = (case stringAt payload ''type'' of Some t \<Rightarrow> t | None \<Rightarrow> [])"

text \<open>
  The loop of \<^verbatim>\<open>readStream\<close> over the lines that the scanner delivers.  Each line is also
  written to the log, which changes nothing here.
\<close>

fun readLoop :: "Json \<Rightarrow> LLM \<Rightarrow> streamingFunc \<Rightarrow> string list \<Rightarrow> state \<Rightarrow> state \<times> error option" where
  "readLoop J l sf [] st = (st, None)"
| "readLoop J l sf (raw # rest) st =
     (let line = TrimSpace raw in
      if line = [] then readLoop J l sf rest st
      else case Unmarshal J line of
        Inl e \<Rightarrow> (st, Some (ParseJsonError e))
      | Inr payload \<Rightarrow>
          (let msgType = msgTypeOf payload in
           if msgType = ''assistant'' then
             (case extractAssistantContent payload of
                (texts, toolUses, Some e) \<Rightarrow> (st, Some e)
              | (texts, toolUses, None) \<Rightarrow>
                  (case streamTexts sf texts st of
                     (st1, Some e) \<Rightarrow> (st1, Some e)
                   | (st1, None) \<Rightarrow> readLoop J l sf rest (dispatchToolUses J l sf toolUses st1)))
           else if msgType = ''tool_result'' then
             readLoop J l sf rest
               (handleToolEvent J l sf
                  \<lparr>Type = ToolEventResult, ToolName = [],
                   ToolID = getStringField payload ''tool_use_id'', Input = None,
                   Output = getStringField payload ''content''\<rparr> st)
           else if msgType = ''result'' then
             readLoop J l sf rest
               (st\<lparr>generationInfo := Some (mergeResultInfo (generationInfo st) payload)\<rparr>)
           else if msgType = [] then (st, Some (CliError payload))
           else readLoop J l sf rest st))"

text \<open>
  The standard output of the subprocess as the scanner reads it: for a given limit on the
  length of a line, the lines delivered and the error the scanner ends with, if any.
\<close>

type_synonym reader = "int \<Rightarrow> string list \<times> string option"

definition initialState :: state where
  "initialState = \<lparr>builder = [], generationInfo = None, calls = []\<rparr>"

definition readStream :: "Json \<Rightarrow> LLM \<Rightarrow> reader \<Rightarrow> streamingFunc \<Rightarrow> state \<times> error option" where
  "readStream J l stdout sf =
     (case stdout (MaxBufferSize (opts l)) of
        (lines, scanErr) \<Rightarrow>
          (case readLoop J l sf lines initialState of
             (st, Some e) \<Rightarrow> (st, Some e)
           | (st, None) \<Rightarrow>
               (case scanErr of
                  Some e \<Rightarrow> (st, Some (ReadStdoutError e))
                | None \<Rightarrow> (st, None))))"

section \<open>The multi-message call\<close>

record ContentChoice =
  Content :: string
  GenerationInfo :: "(string \<rightharpoonup> json) option"

record ContentResponse =
  Choices :: "ContentChoice list"

text \<open>
  The command that is started, and what the subprocess does once it is: whether the pipes and
  the start fail, its standard output, its standard error and the error of waiting for it.
  The standard error is copied by a task of its own, and the wait for the subprocess closes
  the pipe before that task is joined: \<open>Drained\<close> is the number of bytes the task had copied
  by then, so what the call can report is that prefix of the standard error.
\<close>

record Cmd =
  Path :: string
  Args :: "string list"
  CmdEnv :: "string list"
  Dir :: string

record Process =
  StdoutPipeErr :: "string option"
  StderrPipeErr :: "string option"
  StartErr :: "string option"
  Stdout :: reader
  Stderr :: string
  Drained :: nat
  WaitErr :: "string option"

definition mergeEnv :: "string list \<Rightarrow> (string \<times> string) list \<Rightarrow> string list" where
  "mergeEnv base overrides =
     (if length overrides = 0 then base
      else base @ map (\<lambda>(k, v). k @ ''='' @ v) overrides)"

text \<open>
  \<^verbatim>\<open>GenerateContent\<close> returns a response and an error, either of which can be nil, together
  with the calls made to the callback and the hook.  \<open>run\<close> is the operating system starting
  the command, \<open>environ\<close> the environment of the caller; a nil receiver is \<open>None\<close>.
\<close>

definition GenerateContent :: "Json \<Rightarrow> (Cmd \<Rightarrow> Process) \<Rightarrow> string list \<Rightarrow> LLM option
    \<Rightarrow> MessageContent list \<Rightarrow> streamingFunc
    \<Rightarrow> ContentResponse option \<times> error option \<times> call list" where
  "GenerateContent J run environ receiver messages sf =
     (case receiver of
        None \<Rightarrow> (None, Some NilReceiver, [])
      | Some l \<Rightarrow>
     (case splitSystemMessages messages of
        Inl e \<Rightarrow> (None, Some e, [])
      | Inr (systemFromMessages, nonSystem) \<Rightarrow>
     (let systemPrompt = mergeSystemPrompt (SystemPrompt (opts l)) systemFromMessages in
      case buildPrompt nonSystem of
        Inl e \<Rightarrow> (None, Some e, [])
      | Inr prompt \<Rightarrow>
     (if TrimSpace prompt = [] then (None, Some ErrEmptyPrompt, [])
      else
     (let cmd = \<lparr>Path = cliPath l, Args = buildCommand l prompt systemPrompt,
                 CmdEnv = mergeEnv environ (Env (opts l)), Dir = Cwd (opts l)\<rparr>;
          p = run cmd in
      case StdoutPipeErr p of
        Some e \<Rightarrow> (None, Some (StdoutPipeError e), [])
      | None \<Rightarrow>
     (case StderrPipeErr p of
        Some e \<Rightarrow> (None, Some (StderrPipeError e), [])
      | None \<Rightarrow>
     (case StartErr p of
        Some e \<Rightarrow> (None, Some (StartCliError e), [])
      | None \<Rightarrow>
     (case readStream J l (Stdout p) sf of
        (st, Some streamErr) \<Rightarrow> (None, Some streamErr, calls st)
      | (st, None) \<Rightarrow>
     (case WaitErr p of
        Some e \<Rightarrow>
          (None, Some (CliFailed e (TrimSpace (take (Drained p) (Stderr p)))), calls st)
      | None \<Rightarrow>
          (Some \<lparr>Choices = [\<lparr>Content = builder st, GenerationInfo = generationInfo st\<rparr>]\<rparr>,
           None, calls st))))))))))"

section \<open>Counting a flag with its value\<close>

text \<open>
  The number of places of an argument vector at which \<open>a\<close> is immediately followed by \<open>b\<close>:
  how often the flag \<open>a\<close> occurs with the value \<open>b\<close>.
\<close>

fun pairCount :: "'a \<Rightarrow> 'a \<Rightarrow> 'a list \<Rightarrow> nat" where
  "pairCount a b (x # y # zs) = (if x = a \<and> y = b then 1 else 0) + pairCount a b (y # zs)"
| "pairCount a b [x] = 0"
| "pairCount a b [] = 0"

section \<open>Concrete inputs\<close>

definition msgs0 :: "MessageContent list" where
  "msgs0 = [\<lparr>Role = ChatMessageTypeHuman, Parts = [TextContent ''hi'']\<rparr>]"

definition sys0 :: System where
  "sys0 = \<lparr>UserHomeDir = Some ''/home/u'',
           LookPath = (\<lambda>p. if p = ''claude'' then Inr ''/usr/bin/claude'' else Inl ''not found''),
           filepathJoin = (\<lambda>xs. Join xs ''/'')\<rparr>"

definition llm0 :: LLM where
  "llm0 = \<lparr>cliPath = ''/usr/bin/claude'', opts = defaultOptions\<lparr>ToolEventHook := True\<rparr>\<rparr>"

text \<open>Lines of a stream and the maps they decode to.\<close>

definition lineHi :: string where
  \<open>lineHi = ''{"type":"assistant","message":{"content":[{"type":"text","text":"hi"}]}}''\<close>

definition payloadHi :: payload where
  "payloadHi =
     [(''type'', JString ''assistant''),
      (''message'', JObject [(''content'',
         JArray [JObject [(''type'', JString ''text''), (''text'', JString ''hi'')]])])]"

definition lineCost :: string where
  \<open>lineCost = ''{"type":"result","total_cost_usd":0.01}''\<close>

definition payloadCost :: payload where
  "payloadCost = [(''type'', JString ''result''), (''total_cost_usd'', JNumber (1 / 100))]"

definition lineCost2 :: string where
  \<open>lineCost2 = ''{"type":"result","total_cost_usd":0.02}''\<close>

definition payloadCost2 :: payload where
  "payloadCost2 = [(''type'', JString ''result''), (''total_cost_usd'', JNumber (2 / 100))]"

definition lineToolText :: string where
  \<open>lineToolText = ''{"type":"assistant","message":{"content":[{"type":"tool_use","id":"t1","name":"Read","input":{"file_path":"a.go"}},{"type":"text","text":"hi"}]}}''\<close>

definition blocksToolText :: "json list" where
  "blocksToolText =
     [JObject [(''type'', JString ''tool_use''), (''id'', JString ''t1''),
               (''name'', JString ''Read''),
               (''input'', JObject [(''file_path'', JString ''a.go'')])],
      JObject [(''type'', JString ''text''), (''text'', JString ''hi'')]]"

definition payloadToolText :: payload where
  "payloadToolText =
     [(''type'', JString ''assistant''),
      (''message'', JObject [(''content'', JArray blocksToolText)])]"

definition lineMixed :: string where
  \<open>lineMixed = ''{"type":"assistant","message":{"content":[1,{"type":"text","text":5},{"type":"text","text":""},{"type":"tool_use","name":7},{"type":"text","text":"hi"}]}}''\<close>

definition blocksMixed :: "json list" where
  "blocksMixed =
     [JNumber 1,
      JObject [(''type'', JString ''text''), (''text'', JNumber 5)],
      JObject [(''type'', JString ''text''), (''text'', JString [])],
      JObject [(''type'', JString ''tool_use''), (''name'', JNumber 7)],
      JObject [(''type'', JString ''text''), (''text'', JString ''hi'')]]"

definition payloadMixed :: payload where
  "payloadMixed =
     [(''type'', JString ''assistant''), (''message'', JObject [(''content'', JArray blocksMixed)])]"

definition lineEmptyType :: string where
  \<open>lineEmptyType = ''{"type":"","message":{"content":"late"},"is_error":true}''\<close>

definition payloadEmptyType :: payload where
  "payloadEmptyType =
     [(''type'', JString []), (''message'', JObject [(''content'', JString ''late'')]),
      (''is_error'', JBool True)]"

definition lineSystem :: string where
  \<open>lineSystem = ''{"type":"system","subtype":"init"}''\<close>

definition payloadSystem :: payload where
  "payloadSystem = [(''type'', JString ''system''), (''subtype'', JString ''init'')]"

definition lineBad :: string where
  \<open>lineBad = ''{"type":''\<close>

text \<open>
  A decoder that knows these lines and rejects every other input, and a printer; they stand
  for the JSON library on the inputs used below.
\<close>

definition decode0 :: "string \<Rightarrow> string + payload" where
  "decode0 s =
     (if s = lineHi then Inr payloadHi
      else if s = lineCost then Inr payloadCost
      else if s = lineCost2 then Inr payloadCost2
      else if s = lineToolText then Inr payloadToolText
      else if s = lineMixed then Inr payloadMixed
      else if s = lineEmptyType then Inr payloadEmptyType
      else if s = lineSystem then Inr payloadSystem
      else Inl ''unexpected end of JSON input'')"

definition json0 :: Json where
  "json0 = \<lparr>Unmarshal = decode0, MarshalIndent = (\<lambda>_. ''{}'')\<rparr>"

definition accept0 :: "call list \<Rightarrow> string \<Rightarrow> error option" where
  "accept0 history chunk = None"

definition toolEvent0 :: ToolEvent where
  "toolEvent0 = \<lparr>Type = ToolEventUse, ToolName = ''Read'', ToolID = ''t1'',
                  Input = Some [(''file_path'', JString ''a.go'')], Output = []\<rparr>"

definition state0 :: state where
  "state0 = \<lparr>builder = ''hi'', generationInfo = None, calls = [StreamingCall ''hi'']\<rparr>"

definition run0 :: "Cmd \<Rightarrow> Process" where
  "run0 cmd = \<lparr>StdoutPipeErr = None, StderrPipeErr = None, StartErr = None,
               Stdout = (\<lambda>_. ([lineHi, lineBad, lineCost], None)), Stderr = [], Drained = 0,
               WaitErr = None\<rparr>"

definition llmTools :: LLM where
  "llmTools = \<lparr>cliPath = ''/usr/bin/claude'',
               opts = defaultOptions\<lparr>Tools := [''a'', ''b''], AllowedTools := [''x''],
                                     Model := ''m''\<rparr>\<rparr>"

definition llmDup :: LLM where
  "llmDup = \<lparr>cliPath = ''/usr/bin/claude'',
             opts = defaultOptions\<lparr>Tools := [''a'', ''b''], AllowedTools := [''x''],
                                   Model := ''m'', ExtraArgs := [(''model'', ''m'')]\<rparr>\<rparr>"

definition llmExtra :: LLM where
  "llmExtra = \<lparr>cliPath = ''/usr/bin/claude'',
               opts = defaultOptions\<lparr>ExtraArgs := [(''z'', ''1''), (''a'', [])]\<rparr>\<rparr>"



section \<open>Properties of the prompt builder\<close>

lemma stripLeading_Nil: "stripLeading rs [] = []"
proof -
  have "leadingWidth rs [] = 0"
    by (auto simp: leadingWidth_def find_Some_iff split: option.splits)
  then show ?thesis by (simp add: stripLeading.simps)
qed

lemma TrimSpace_Nil: "TrimSpace [] = []"
  by (simp add: TrimSpace_def stripLeading_Nil)

lemma stripLeading_id: "leadingWidth rs s = 0 \<Longrightarrow> stripLeading rs s = s"
  by (simp add: stripLeading.simps)

lemma TrimSpace_id:
  assumes "leadingWidth spaceRunes s = 0" and "leadingWidth (map rev spaceRunes) (rev s) = 0"
  shows "TrimSpace s = s"
  using assms by (simp add: TrimSpace_def stripLeading_id)

lemma splitLoop_no_system:
  "\<forall>m \<in> set ms. Role m \<noteq> ChatMessageTypeSystem \<Longrightarrow> splitLoop ms sp os = Inr (sp, os @ ms)"
  by (induction ms arbitrary: os) auto

lemma mergeSystemPrompt_empty: "mergeSystemPrompt base [] = TrimSpace base"
  by (simp add: mergeSystemPrompt_def TrimSpace_Nil Let_def)

text \<open>
  Claim C3, as the code has it.  For a message sequence without a system-role message the
  extracted system text is empty and every message is kept; the merged system prompt is then
  the configured base prompt with its leading and trailing white space cut off, which is the
  base prompt itself whenever that neither starts nor ends with a white-space rune.
\<close>

theorem merge_without_system_messages:
  assumes "\<forall>m \<in> set messages. Role m \<noteq> ChatMessageTypeSystem"
  shows "splitSystemMessages messages = Inr ([], messages) \<and>
         mergeSystemPrompt base [] = TrimSpace base \<and>
         (leadingWidth spaceRunes base = 0 \<and> leadingWidth (map rev spaceRunes) (rev base) = 0
            \<longrightarrow> mergeSystemPrompt base [] = base)"
proof -
  have "splitLoop messages [] [] = Inr ([], messages)"
    using assms splitLoop_no_system [of messages "[]" "[]"] by simp
  then have "splitSystemMessages messages = Inr ([], messages)"
    by (simp add: splitSystemMessages_def)
  then show ?thesis
    by (simp add: mergeSystemPrompt_empty TrimSpace_id)
qed

theorem merge_without_system_messages_witness:
  "map Role msgs0 = [ChatMessageTypeHuman] \<and>
   splitSystemMessages msgs0 = Inr ([], msgs0) \<and>
   mergeSystemPrompt ''Be brief.'' [] = ''Be brief.''"
proof -
  have h: "\<forall>m \<in> set msgs0. Role m \<noteq> ChatMessageTypeSystem"
    by (simp add: msgs0_def)
  have w: "leadingWidth spaceRunes ''Be brief.'' = 0 \<and>
           leadingWidth (map rev spaceRunes) (rev ''Be brief.'') = 0"
    by (simp add: leadingWidth_def spaceRunes_def)
  have r: "map Role msgs0 = [ChatMessageTypeHuman]"
    by (simp add: msgs0_def)
  show ?thesis
    using r w merge_without_system_messages [OF h, of "''Be brief.''"] by blast
qed

text \<open>
  Claim C3 as stated fails: with no system-role message and the base prompt \<open>'' B''\<close>
  (a space, then B) the merged system prompt is \<open>''B''\<close>, not the base prompt verbatim.
\<close>

theorem merge_verbatim_counterexample:
  "map Role msgs0 = [ChatMessageTypeHuman] \<and>
   splitSystemMessages msgs0 = Inr ([], msgs0) \<and>
   mergeSystemPrompt '' B'' [] = ''B'' \<and> mergeSystemPrompt '' B'' [] \<noteq> '' B''"
  by (simp add: msgs0_def splitSystemMessages_def messageToText_def mergeSystemPrompt_def
      TrimSpace_def stripLeading.simps leadingWidth_def spaceRunes_def)

section \<open>Properties of the configuration\<close>

text \<open>
  Claim C9.  The max-buffer-size option with a non-positive size leaves the options as they
  are.  A client that \<^verbatim>\<open>New\<close> returns has a strictly positive buffer limit, whatever the
  option functions did: 1 MiB when they left a non-positive value, their value otherwise.
  The stream parser asks the reader for lines under exactly this limit, so it reads under a
  positive limit.
\<close>

theorem max_buffer_size_positive:
  "(sz \<le> 0 \<longrightarrow> WithMaxBufferSize sz o1 = o1) \<and>
   (New sys optList = Inr l \<longrightarrow>
      0 < MaxBufferSize (opts l) \<and>
      MaxBufferSize (opts l) =
        (if MaxBufferSize (foldl (\<lambda>o1 opt. opt o1) defaultOptions optList) \<le> 0
         then 1048576
         else MaxBufferSize (foldl (\<lambda>o1 opt. opt o1) defaultOptions optList)) \<and>
      (\<exists>cap. 0 < cap \<and>
         (\<forall>J stdout sf. readStream J l stdout sf = readStream J l (\<lambda>_. stdout cap) sf)))"
proof -
  have a: "sz \<le> 0 \<longrightarrow> WithMaxBufferSize sz o1 = o1"
    by (simp add: WithMaxBufferSize_def)
  have b: "0 < MaxBufferSize (opts l) \<and>
      MaxBufferSize (opts l) =
        (if MaxBufferSize (foldl (\<lambda>o1 opt. opt o1) defaultOptions optList) \<le> 0
         then 1048576
         else MaxBufferSize (foldl (\<lambda>o1 opt. opt o1) defaultOptions optList))"
    if "New sys optList = Inr l"
    using that
    by (auto simp: New_def Let_def defaultMaxBufferSize_def split: sum.splits if_splits)
  have c: "\<exists>cap. 0 < cap \<and>
         (\<forall>J stdout sf. readStream J l stdout sf = readStream J l (\<lambda>_. stdout cap) sf)"
    if "0 < MaxBufferSize (opts l)"
    using that by (intro exI [of _ "MaxBufferSize (opts l)"]) (simp add: readStream_def)
  from a b c show ?thesis by blast
qed

theorem max_buffer_size_positive_witness:
  "WithMaxBufferSize (- 5) defaultOptions = defaultOptions \<and>
   New sys0 [WithToolEventHook True, \<lambda>o1. o1\<lparr>MaxBufferSize := - 1\<rparr>] = Inr llm0 \<and>
   MaxBufferSize (opts llm0) = 1048576 \<and> 0 < MaxBufferSize (opts llm0)"
proof -
  have n: "New sys0 [WithToolEventHook True, \<lambda>o1. o1\<lparr>MaxBufferSize := - 1\<rparr>] = Inr llm0"
    by (simp add: New_def resolveCLI_def sys0_def llm0_def defaultOptions_def
        WithToolEventHook_def TrimSpace_Nil defaultPermissionMode_def Let_def)
  have m: "MaxBufferSize (opts llm0) = 1048576"
    by (simp add: llm0_def defaultOptions_def defaultMaxBufferSize_def)
  show ?thesis
    using n m
      max_buffer_size_positive [of "- 5" defaultOptions sys0
        "[WithToolEventHook True, \<lambda>o1. o1\<lparr>MaxBufferSize := - 1\<rparr>]" llm0]
    by simp
qed

section \<open>Properties of the tool event handler\<close>

text \<open>
  Claim C5.  In the text-only output mode a tool event leaves the accumulated text and the
  generation metadata as they are, and the only call it adds is the one call of the tool
  event hook, when a hook is set: the streaming callback is not called.
\<close>

theorem text_mode_tool_event:
  assumes "OutputMode (opts l) = OutputModeText"
  shows "builder (handleToolEvent J l sf event st) = builder st \<and>
         generationInfo (handleToolEvent J l sf event st) = generationInfo st \<and>
         calls (handleToolEvent J l sf event st) =
           calls st @ (if ToolEventHook (opts l) then [HookCall event] else [])"
  using assms by (simp add: handleToolEvent_def)

theorem text_mode_tool_event_witness:
  "OutputMode (opts llm0) = OutputModeText \<and>
   builder (handleToolEvent json0 llm0 (Some accept0) toolEvent0 state0) = ''hi'' \<and>
   calls (handleToolEvent json0 llm0 (Some accept0) toolEvent0 state0) =
     [StreamingCall ''hi'', HookCall toolEvent0]"
proof -
  have h: "OutputMode (opts llm0) = OutputModeText"
    by (simp add: llm0_def defaultOptions_def OutputModeText_def)
  have k: "ToolEventHook (opts llm0)"
    by (simp add: llm0_def)
  show ?thesis
    using h k text_mode_tool_event [OF h, of json0 "Some accept0" toolEvent0 state0]
    by (simp add: state0_def)
qed

section \<open>Properties of the content extraction\<close>

lemma extractBlocks_step:
  "extractBlocks (b # bs) ts us =
     extractBlocks bs (ts @ fst (extractBlocks [b] [] [])) (us @ snd (extractBlocks [b] [] []))"
  by (cases b) (simp_all add: Let_def)

lemma extractBlocks_concat:
  "extractBlocks bs ts us =
     (ts @ concat (map (\<lambda>b. fst (extractBlocks [b] [] [])) bs),
      us @ concat (map (\<lambda>b. snd (extractBlocks [b] [] [])) bs))"
proof (induction bs arbitrary: ts us)
  case Nil
  show ?case by simp
next
  case (Cons b bs)
  show ?case
    by (subst extractBlocks_step) (simp add: Cons.IH)
qed

lemma extractAssistantContent_list:
  assumes "map_of payload ''message'' = Some (JObject message)"
    and "map_of message ''content'' = Some (JArray blocks)"
  shows "extractAssistantContent payload =
     (concat (map (\<lambda>b. fst (extractBlocks [b] [] [])) blocks),
      concat (map (\<lambda>b. snd (extractBlocks [b] [] [])) blocks), None)"
  using assms extractBlocks_concat [of blocks "[]" "[]"]
  by (simp add: extractAssistantContent_def)

text \<open>
  Claim C10.  For an assistant line whose message content is a list, the extraction returns
  no error, and its texts and tool uses are what the blocks contribute one by one, in order.
  A block that is not an object contributes nothing; a text block whose text is missing, not
  a string or empty contributes nothing; a tool-use block contributes one tool use whose id
  and name are the empty string where the field is missing or not a string.
\<close>

theorem content_list_never_fails:
  assumes "map_of payload ''message'' = Some (JObject message)"
    and "map_of message ''content'' = Some (JArray blocks)"
  shows "extractAssistantContent payload =
           (concat (map (\<lambda>b. fst (extractBlocks [b] [] [])) blocks),
            concat (map (\<lambda>b. snd (extractBlocks [b] [] [])) blocks), None) \<and>
         ((\<forall>m. b \<noteq> JObject m) \<longrightarrow> extractBlocks [b] [] [] = ([], [])) \<and>
         (stringAt m ''type'' = Some ''text'' \<and>
            (stringAt m ''text'' = None \<or> stringAt m ''text'' = Some [])
            \<longrightarrow> extractBlocks [JObject m] [] [] = ([], [])) \<and>
         (stringAt m ''type'' = Some ''tool_use''
            \<longrightarrow> extractBlocks [JObject m] [] [] =
                  ([], [\<lparr>ID = (case map_of m ''id'' of Some (JString s) \<Rightarrow> s | _ \<Rightarrow> []),
                         Name = (case map_of m ''name'' of Some (JString s) \<Rightarrow> s | _ \<Rightarrow> []),
                         tuInput = (case map_of m ''input'' of
                                      Some (JObject i) \<Rightarrow> Some i | _ \<Rightarrow> None)\<rparr>]))"
proof -
  have a: "extractAssistantContent payload =
           (concat (map (\<lambda>b. fst (extractBlocks [b] [] [])) blocks),
            concat (map (\<lambda>b. snd (extractBlocks [b] [] [])) blocks), None)"
    using assms by (rule extractAssistantContent_list)
  have b: "(\<forall>m. b \<noteq> JObject m) \<longrightarrow> extractBlocks [b] [] [] = ([], [])"
    by (cases b) simp_all
  have c: "stringAt m ''type'' = Some ''text'' \<and>
            (stringAt m ''text'' = None \<or> stringAt m ''text'' = Some [])
            \<longrightarrow> extractBlocks [JObject m] [] [] = ([], [])"
    by auto
  have d: "stringAt m ''type'' = Some ''tool_use''
            \<longrightarrow> extractBlocks [JObject m] [] [] =
                  ([], [\<lparr>ID = (case map_of m ''id'' of Some (JString s) \<Rightarrow> s | _ \<Rightarrow> []),
                         Name = (case map_of m ''name'' of Some (JString s) \<Rightarrow> s | _ \<Rightarrow> []),
                         tuInput = (case map_of m ''input'' of
                                      Some (JObject i) \<Rightarrow> Some i | _ \<Rightarrow> None)\<rparr>])"
    by (auto simp: getStringField_def stringAt_def split: option.splits json.splits)
  from a b c d show ?thesis by blast
qed

theorem content_list_never_fails_witness:
  "map_of payloadMixed ''message'' = Some (JObject [(''content'', JArray blocksMixed)]) \<and>
   map_of [(''content'', JArray blocksMixed)] ''content'' = Some (JArray blocksMixed) \<and>
   extractAssistantContent payloadMixed =
     ([''hi''], [\<lparr>ID = [], Name = [], tuInput = None\<rparr>], None) \<and>
   extractBlocks [JNumber 1] [] [] = ([], []) \<and>
   extractBlocks [JObject [(''type'', JString ''text''), (''text'', JNumber 5)]] [] [] = ([], []) \<and>
   extractBlocks [JObject [(''type'', JString ''tool_use''), (''name'', JNumber 7)]] [] [] =
     ([], [\<lparr>ID = [], Name = [], tuInput = None\<rparr>])"
proof -
  have m: "map_of payloadMixed ''message'' = Some (JObject [(''content'', JArray blocksMixed)])"
    by (simp add: payloadMixed_def)
  have c: "map_of [(''content'', JArray blocksMixed)] ''content'' = Some (JArray blocksMixed)"
    by simp
  have t: "stringAt [(''type'', JString ''text''), (''text'', JNumber 5)] ''type'' = Some ''text'' \<and>
           stringAt [(''type'', JString ''text''), (''text'', JNumber 5)] ''text'' = None"
    by (simp add: stringAt_def)
  have u: "stringAt [(''type'', JString ''tool_use''), (''name'', JNumber 7)] ''type'' =
           Some ''tool_use''"
    by (simp add: stringAt_def)
  have e: "concat (map (\<lambda>b. fst (extractBlocks [b] [] [])) blocksMixed) = [''hi''] \<and>
           concat (map (\<lambda>b. snd (extractBlocks [b] [] [])) blocksMixed) =
             [\<lparr>ID = [], Name = [], tuInput = None\<rparr>]"
    by (simp add: blocksMixed_def stringAt_def getStringField_def)
  have n: "\<forall>m. JNumber 1 \<noteq> JObject m"
    by simp
  show ?thesis
    using m c t u e n
      content_list_never_fails [OF m c, of "JNumber 1"
        "[(''type'', JString ''text''), (''text'', JNumber 5)]"]
      content_list_never_fails [OF m c, of "JNumber 1"
        "[(''type'', JString ''tool_use''), (''name'', JNumber 7)]"]
    by simp
qed

section \<open>Properties of the stream parser\<close>

lemma readLoop_blank:
  "TrimSpace raw = [] \<Longrightarrow> readLoop J l sf (raw # rest) st = readLoop J l sf rest st"
  by simp

lemma readLoop_parse_error:
  "TrimSpace raw \<noteq> [] \<Longrightarrow> Unmarshal J (TrimSpace raw) = Inl e \<Longrightarrow>
   readLoop J l sf (raw # rest) st = (st, Some (ParseJsonError e))"
  by simp

lemma readLoop_empty_type:
  "TrimSpace raw \<noteq> [] \<Longrightarrow> Unmarshal J (TrimSpace raw) = Inr payload \<Longrightarrow>
   msgTypeOf payload = [] \<Longrightarrow>
   readLoop J l sf (raw # rest) st = (st, Some (CliError payload))"
  by simp

lemma readLoop_other_type:
  "TrimSpace raw \<noteq> [] \<Longrightarrow> Unmarshal J (TrimSpace raw) = Inr payload \<Longrightarrow>
   msgTypeOf payload \<noteq> [] \<Longrightarrow> msgTypeOf payload \<noteq> ''assistant'' \<Longrightarrow>
   msgTypeOf payload \<noteq> ''tool_result'' \<Longrightarrow> msgTypeOf payload \<noteq> ''result'' \<Longrightarrow>
   readLoop J l sf (raw # rest) st = readLoop J l sf rest st"
  by simp

lemma readLoop_result:
  "TrimSpace raw \<noteq> [] \<Longrightarrow> Unmarshal J (TrimSpace raw) = Inr payload \<Longrightarrow>
   msgTypeOf payload = ''result'' \<Longrightarrow>
   readLoop J l sf (raw # rest) st =
     readLoop J l sf rest (st\<lparr>generationInfo := Some (mergeResultInfo (generationInfo st) payload)\<rparr>)"
  by simp

lemma readLoop_tool_result:
  "TrimSpace raw \<noteq> [] \<Longrightarrow> Unmarshal J (TrimSpace raw) = Inr payload \<Longrightarrow>
   msgTypeOf payload = ''tool_result'' \<Longrightarrow>
   readLoop J l sf (raw # rest) st =
     readLoop J l sf rest
       (handleToolEvent J l sf
          \<lparr>Type = ToolEventResult, ToolName = [],
           ToolID = getStringField payload ''tool_use_id'', Input = None,
           Output = getStringField payload ''content''\<rparr> st)"
  by simp

lemma readLoop_assistant:
  "TrimSpace raw \<noteq> [] \<Longrightarrow> Unmarshal J (TrimSpace raw) = Inr payload \<Longrightarrow>
   msgTypeOf payload = ''assistant'' \<Longrightarrow>
   readLoop J l sf (raw # rest) st =
     (case extractAssistantContent payload of
        (texts, toolUses, Some e) \<Rightarrow> (st, Some e)
      | (texts, toolUses, None) \<Rightarrow>
          (case streamTexts sf texts st of
             (st1, Some e) \<Rightarrow> (st1, Some e)
           | (st1, None) \<Rightarrow> readLoop J l sf rest (dispatchToolUses J l sf toolUses st1)))"
  by simp

lemma readLoop_append:
  "readLoop J l sf (xs @ ys) st =
     (case readLoop J l sf xs st of
        (st1, Some e) \<Rightarrow> (st1, Some e)
      | (st1, None) \<Rightarrow> readLoop J l sf ys st1)"
proof (induction xs arbitrary: st)
  case Nil
  show ?case by simp
next
  case (Cons x xs)
  show ?case
    by (simp add: Cons.IH Let_def split: sum.splits prod.splits option.splits)
qed

declare readLoop.simps(2) [simp del]

lemma handleToolEvent_generationInfo:
  "generationInfo (handleToolEvent J l sf ev st) = generationInfo st"
  by (simp add: handleToolEvent_def Let_def split: option.splits)

lemma dispatchToolUses_generationInfo:
  "generationInfo (dispatchToolUses J l sf tus st) = generationInfo st"
  by (induction tus arbitrary: st) (simp_all add: handleToolEvent_generationInfo)

lemma streamTexts_generationInfo:
  "streamTexts sf texts st = (st', e) \<Longrightarrow> generationInfo st' = generationInfo st"
proof (induction texts arbitrary: st)
  case Nil
  then show ?case by simp
next
  case (Cons t ts)
  show ?case
  proof (cases sf)
    case None
    with Cons.prems have "streamTexts sf ts (st\<lparr>builder := builder st @ t\<rparr>) = (st', e)"
      by simp
    from Cons.IH [OF this] show ?thesis by simp
  next
    case (Some f)
    show ?thesis
    proof (cases "f (calls st) t")
      case None
      with Some Cons.prems
      have "streamTexts sf ts (st\<lparr>calls := calls st @ [StreamingCall t],
              builder := builder st @ t\<rparr>) = (st', e)"
        by simp
      from Cons.IH [OF this] show ?thesis by simp
    next
      case (Some er)
      with \<open>sf = Some f\<close> Cons.prems have "st' = st\<lparr>calls := calls st @ [StreamingCall t]\<rparr>"
        by simp
      then show ?thesis by simp
    qed
  qed
qed


lemma result_fields_cases:
  assumes "(f, k) \<in> set [(''total_cost_usd'', ''TotalCostUSD''), (''usage'', ''Usage''),
                       (''result'', ''Result''), (''structured_output'', ''StructuredOutput'')]"
  obtains "f = ''total_cost_usd''" "k = ''TotalCostUSD''"
    | "f = ''usage''" "k = ''Usage''"
    | "f = ''result''" "k = ''Result''"
    | "f = ''structured_output''" "k = ''StructuredOutput''"
proof -
  from assms have "(f = ''total_cost_usd'' \<and> k = ''TotalCostUSD'') \<or>
      (f = ''usage'' \<and> k = ''Usage'') \<or> (f = ''result'' \<and> k = ''Result'') \<or>
      (f = ''structured_output'' \<and> k = ''StructuredOutput'')"
    by (simp only: set_simps insert_iff empty_iff prod.inject simp_thms)
  then show thesis
    apply (elim disjE conjE)
       apply (rule that(1); assumption)
      apply (rule that(2); assumption)
     apply (rule that(3); assumption)
    apply (rule that(4); assumption)
    done
qed

lemma mergeResultInfo_apply:
  "mergeResultInfo existing p k =
     (if k = ''StructuredOutput'' \<and> map_of p ''structured_output'' \<noteq> None
        then map_of p ''structured_output''
      else if k = ''Result'' \<and> map_of p ''result'' \<noteq> None then map_of p ''result''
      else if k = ''Usage'' \<and> map_of p ''usage'' \<noteq> None then map_of p ''usage''
      else if k = ''TotalCostUSD'' \<and> map_of p ''total_cost_usd'' \<noteq> None
        then map_of p ''total_cost_usd''
      else (case existing of None \<Rightarrow> None | Some m \<Rightarrow> m k))"
  by (cases existing; cases "map_of p ''total_cost_usd''"; cases "map_of p ''usage''";
      cases "map_of p ''result''"; cases "map_of p ''structured_output''")
    (simp_all add: mergeResultInfo_def)

lemma mergeResultInfo_sets:
  assumes "map_of pr f = Some v"
    and "(f, k) \<in> set [(''total_cost_usd'', ''TotalCostUSD''), (''usage'', ''Usage''),
                       (''result'', ''Result''), (''structured_output'', ''StructuredOutput'')]"
  shows "mergeResultInfo g pr k = Some v"
  using assms(2)
proof (cases rule: result_fields_cases)
  case 1
  with assms(1) show ?thesis by (simp add: mergeResultInfo_apply)
next
  case 2
  with assms(1) show ?thesis by (simp add: mergeResultInfo_apply)
next
  case 3
  with assms(1) show ?thesis by (simp add: mergeResultInfo_apply)
next
  case 4
  with assms(1) show ?thesis by (simp add: mergeResultInfo_apply)
qed

lemma mergeResultInfo_keeps:
  assumes "map_of p f = None"
    and "(f, k) \<in> set [(''total_cost_usd'', ''TotalCostUSD''), (''usage'', ''Usage''),
                       (''result'', ''Result''), (''structured_output'', ''StructuredOutput'')]"
    and "g k = Some v"
  shows "mergeResultInfo (Some g) p k = Some v"
  using assms(2)
proof (cases rule: result_fields_cases)
  case 1
  with assms(1,3) show ?thesis by (simp add: mergeResultInfo_apply)
next
  case 2
  with assms(1,3) show ?thesis by (simp add: mergeResultInfo_apply)
next
  case 3
  with assms(1,3) show ?thesis by (simp add: mergeResultInfo_apply)
next
  case 4
  with assms(1,3) show ?thesis by (simp add: mergeResultInfo_apply)
qed


lemma readLoop_keeps_field:
  assumes "\<forall>x \<in> set post. \<forall>p. TrimSpace x \<noteq> [] \<and> Unmarshal J (TrimSpace x) = Inr p \<and>
             msgTypeOf p = ''result'' \<longrightarrow> map_of p f = None"
    and "(f, k) \<in> set [(''total_cost_usd'', ''TotalCostUSD''), (''usage'', ''Usage''),
                       (''result'', ''Result''), (''structured_output'', ''StructuredOutput'')]"
    and "generationInfo st = Some g" and "g k = Some v"
    and "readLoop J l sf post st = (st', e)"
  shows "\<exists>g'. generationInfo st' = Some g' \<and> g' k = Some v"
  using assms
proof (induction post arbitrary: st g)
  case Nil
  then show ?case by simp
next
  case (Cons x xs)
  note fk = Cons.prems(2)
  have tail: "\<forall>x \<in> set xs. \<forall>p. TrimSpace x \<noteq> [] \<and> Unmarshal J (TrimSpace x) = Inr p \<and>
             msgTypeOf p = ''result'' \<longrightarrow> map_of p f = None"
    using Cons.prems(1) by simp
  have stop: ?case if "st' = st"
    using that Cons.prems(3,4) by simp
  have skip: ?case if "readLoop J l sf xs st = (st', e)"
    using Cons.IH [OF tail fk Cons.prems(3) Cons.prems(4) that] .
  show ?case
  proof (cases "TrimSpace x = []")
    case True
    with Cons.prems(5) have "readLoop J l sf xs st = (st', e)"
      by (simp add: readLoop_blank)
    then show ?thesis by (rule skip)
  next
    case nb: False
    show ?thesis
    proof (cases "Unmarshal J (TrimSpace x)")
      case (Inl err)
      with nb Cons.prems(5) have "st' = st"
        by (simp add: readLoop_parse_error)
      then show ?thesis by (rule stop)
    next
      case (Inr p)
      show ?thesis
      proof (cases "msgTypeOf p = ''assistant''")
        case a: True
        obtain texts tus err where ex: "extractAssistantContent p = (texts, tus, err)"
          by (cases "extractAssistantContent p") auto
        obtain s1 e1 where stx: "streamTexts sf texts st = (s1, e1)"
          by (cases "streamTexts sf texts st") auto
        have g1: "generationInfo s1 = Some g"
          using streamTexts_generationInfo [OF stx] Cons.prems(3) by simp
        have run: "readLoop J l sf (x # xs) st =
             (case err of Some er \<Rightarrow> (st, Some er)
              | None \<Rightarrow> (case e1 of Some er \<Rightarrow> (s1, Some er)
                         | None \<Rightarrow> readLoop J l sf xs (dispatchToolUses J l sf tus s1)))"
          using readLoop_assistant [OF nb Inr a] ex stx by (simp split: option.splits)
        show ?thesis
        proof (cases err)
          case (Some er)
          with run Cons.prems(5) have "st' = st" by simp
          then show ?thesis by (rule stop)
        next
          case None
          show ?thesis
          proof (cases e1)
            case (Some er)
            with None run Cons.prems(5) have "st' = s1" by simp
            with g1 Cons.prems(4) show ?thesis by simp
          next
            case n2: None
            with None run Cons.prems(5)
            have r2: "readLoop J l sf xs (dispatchToolUses J l sf tus s1) = (st', e)" by simp
            have g2: "generationInfo (dispatchToolUses J l sf tus s1) = Some g"
              using g1 by (simp add: dispatchToolUses_generationInfo)
            from Cons.IH [OF tail fk g2 Cons.prems(4) r2] show ?thesis .
          qed
        qed
      next
        case na: False
        show ?thesis
        proof (cases "msgTypeOf p = ''tool_result''")
          case t: True
          have r2: "readLoop J l sf xs
               (handleToolEvent J l sf
                  \<lparr>Type = ToolEventResult, ToolName = [],
                   ToolID = getStringField p ''tool_use_id'', Input = None,
                   Output = getStringField p ''content''\<rparr> st) = (st', e)"
            using readLoop_tool_result [OF nb Inr t] Cons.prems(5) by simp
          have g2: "generationInfo (handleToolEvent J l sf
                  \<lparr>Type = ToolEventResult, ToolName = [],
                   ToolID = getStringField p ''tool_use_id'', Input = None,
                   Output = getStringField p ''content''\<rparr> st) = Some g"
            using Cons.prems(3) by (simp add: handleToolEvent_generationInfo)
          from Cons.IH [OF tail fk g2 Cons.prems(4) r2] show ?thesis .
        next
          case nt: False
          show ?thesis
          proof (cases "msgTypeOf p = ''result''")
            case r: True
            have r2: "readLoop J l sf xs
               (st\<lparr>generationInfo := Some (mergeResultInfo (generationInfo st) p)\<rparr>) = (st', e)"
              using readLoop_result [OF nb Inr r] Cons.prems(5) by simp
            have "map_of p f = None"
              using Cons.prems(1) nb Inr r by simp
            then have keep: "mergeResultInfo (Some g) p k = Some v"
              using fk Cons.prems(4) by (rule mergeResultInfo_keeps)
            have g2: "generationInfo
                 (st\<lparr>generationInfo := Some (mergeResultInfo (generationInfo st) p)\<rparr>)
                   = Some (mergeResultInfo (Some g) p)"
              using Cons.prems(3) by simp
            from Cons.IH [OF tail fk g2 keep r2] show ?thesis .
          next
            case nr: False
            show ?thesis
            proof (cases "msgTypeOf p = []")
              case True
              have "st' = st"
                using readLoop_empty_type [OF nb Inr True] Cons.prems(5) by simp
              then show ?thesis by (rule stop)
            next
              case False
              have "readLoop J l sf xs st = (st', e)"
                using readLoop_other_type [OF nb Inr False na nt nr] Cons.prems(5) by simp
              then show ?thesis by (rule skip)
            qed
          qed
        qed
      qed
    qed
  qed
qed

lemma TrimSpace_lines:
  "TrimSpace lineHi = lineHi" "TrimSpace lineCost = lineCost" "TrimSpace lineCost2 = lineCost2"
  "TrimSpace lineToolText = lineToolText" "TrimSpace lineEmptyType = lineEmptyType"
  "TrimSpace lineSystem = lineSystem" "TrimSpace lineBad = lineBad"
  by (rule TrimSpace_id;
      simp add: leadingWidth_def spaceRunes_def lineHi_def lineCost_def lineCost2_def
        lineToolText_def lineEmptyType_def lineSystem_def lineBad_def)+

lemma lines_not_blank:
  "lineHi \<noteq> []" "lineCost \<noteq> []" "lineCost2 \<noteq> []" "lineToolText \<noteq> []"
  "lineEmptyType \<noteq> []" "lineSystem \<noteq> []" "lineBad \<noteq> []"
  by (simp_all add: lineHi_def lineCost_def lineCost2_def
        lineToolText_def lineEmptyType_def lineSystem_def lineBad_def)

lemma decode0_lines:
  "decode0 lineHi = Inr payloadHi" "decode0 lineCost = Inr payloadCost"
  "decode0 lineCost2 = Inr payloadCost2" "decode0 lineToolText = Inr payloadToolText"
  "decode0 lineEmptyType = Inr payloadEmptyType" "decode0 lineSystem = Inr payloadSystem"
  "decode0 lineBad = Inl ''unexpected end of JSON input''"
  by (simp_all add: decode0_def lineHi_def lineCost_def lineCost2_def
        lineToolText_def lineMixed_def lineEmptyType_def lineSystem_def lineBad_def)

lemma Unmarshal_json0: "Unmarshal json0 = decode0"
  by (simp add: json0_def)

text \<open>
  Claim C4.  A line, anywhere in the stream after lines that were read without an error, that
  is not blank and decodes to a map whose type field is missing or the empty string ends the
  read: the parser returns the text and metadata collected so far with the CLI error that
  carries the decoded map, whatever other fields the map has and whatever follows the line.
  A line whose type is a non-empty string other than assistant, tool_result and result is
  passed over: the stream is read as if the line were not there.
\<close>

theorem empty_discriminant_stops:
  assumes "TrimSpace raw \<noteq> []" and "Unmarshal J (TrimSpace raw) = Inr payload"
    and "readLoop J l sf pre initialState = (st, None)"
    and "stdout (MaxBufferSize (opts l)) = (pre @ raw # rest, scanErr)"
  shows "(map_of payload ''type'' = None \<or> map_of payload ''type'' = Some (JString [])
            \<longrightarrow> readStream J l stdout sf = (st, Some (CliError payload))) \<and>
         (\<forall>t. map_of payload ''type'' = Some (JString t) \<and> t \<noteq> [] \<and> t \<noteq> ''assistant'' \<and>
               t \<noteq> ''tool_result'' \<and> t \<noteq> ''result''
            \<longrightarrow> readStream J l stdout sf = readStream J l (\<lambda>_. (pre @ rest, scanErr)) sf)"
proof (intro conjI impI allI)
  assume "map_of payload ''type'' = None \<or> map_of payload ''type'' = Some (JString [])"
  then have "msgTypeOf payload = []"
    by (auto simp: msgTypeOf_def stringAt_def)
  then have "readLoop J l sf (raw # rest) st = (st, Some (CliError payload))"
    using assms(1,2) by (simp add: readLoop_empty_type)
  then have "readLoop J l sf (pre @ raw # rest) initialState = (st, Some (CliError payload))"
    using assms(3) by (simp add: readLoop_append)
  then show "readStream J l stdout sf = (st, Some (CliError payload))"
    using assms(4) by (simp add: readStream_def)
next
  fix t
  assume t: "map_of payload ''type'' = Some (JString t) \<and> t \<noteq> [] \<and> t \<noteq> ''assistant'' \<and>
               t \<noteq> ''tool_result'' \<and> t \<noteq> ''result''"
  then have "msgTypeOf payload = t"
    by (simp add: msgTypeOf_def stringAt_def)
  with t have "readLoop J l sf (raw # rest) st = readLoop J l sf rest st"
    using assms(1,2) by (simp add: readLoop_other_type)
  then have "readLoop J l sf (pre @ raw # rest) initialState =
             readLoop J l sf (pre @ rest) initialState"
    using assms(3) by (simp add: readLoop_append)
  then show "readStream J l stdout sf = readStream J l (\<lambda>_. (pre @ rest, scanErr)) sf"
    using assms(4) by (simp add: readStream_def)
qed

lemma readLoop_lineHi:
  "readLoop json0 llm0 (Some accept0) (lineHi # rest) initialState =
   readLoop json0 llm0 (Some accept0) rest state0"
proof -
  have "msgTypeOf payloadHi = ''assistant''"
    by (simp add: msgTypeOf_def stringAt_def payloadHi_def)
  moreover have "extractAssistantContent payloadHi = ([''hi''], [], None)"
    by (simp add: extractAssistantContent_def payloadHi_def stringAt_def)
  ultimately show ?thesis
    using readLoop_assistant [of lineHi json0 payloadHi llm0 "Some accept0" rest initialState]
    by (simp add: TrimSpace_lines lines_not_blank Unmarshal_json0 decode0_lines
        accept0_def initialState_def state0_def)
qed

theorem empty_discriminant_stops_witness:
  "readStream json0 llm0 (\<lambda>_. ([lineHi, lineEmptyType, lineCost], None)) (Some accept0) =
     (state0, Some (CliError payloadEmptyType)) \<and>
   readStream json0 llm0 (\<lambda>_. ([lineHi, lineSystem, lineCost], None)) (Some accept0) =
     readStream json0 llm0 (\<lambda>_. ([lineHi] @ [lineCost], None)) (Some accept0)"
proof -
  have pre: "readLoop json0 llm0 (Some accept0) [lineHi] initialState = (state0, None)"
    using readLoop_lineHi [of "[]"] by simp
  have e1: "TrimSpace lineEmptyType \<noteq> []" and e2: "TrimSpace lineSystem \<noteq> []"
    by (simp_all add: TrimSpace_lines lines_not_blank)
  have d1: "Unmarshal json0 (TrimSpace lineEmptyType) = Inr payloadEmptyType"
    and d2: "Unmarshal json0 (TrimSpace lineSystem) = Inr payloadSystem"
    by (simp_all add: TrimSpace_lines Unmarshal_json0 decode0_lines)
  have s1: "(\<lambda>_. ([lineHi, lineEmptyType, lineCost], None)) (MaxBufferSize (opts llm0)) =
            ([lineHi] @ lineEmptyType # [lineCost], None :: string option)"
    and s2: "(\<lambda>_. ([lineHi, lineSystem, lineCost], None)) (MaxBufferSize (opts llm0)) =
            ([lineHi] @ lineSystem # [lineCost], None :: string option)"
    by simp_all
  have t1: "map_of payloadEmptyType ''type'' = Some (JString [])"
    by (simp add: payloadEmptyType_def)
  have t2: "map_of payloadSystem ''type'' = Some (JString ''system'')"
    by (simp add: payloadSystem_def)
  show ?thesis
    using t1 t2 empty_discriminant_stops [OF e1 d1 pre s1] empty_discriminant_stops [OF e2 d2 pre s2]
    by simp
qed

text \<open>
  Claim C6.  Let a line decode to a result map that carries one of the four fields read from
  result lines (\<open>total_cost_usd\<close>, \<open>usage\<close>, \<open>result\<close>, \<open>structured_output\<close>) with the value
  \<open>v\<close>.  A stream of one assistant line with the content list of the single text block
  \<open>hi\<close> followed by that line gives the text \<open>hi\<close>, no error and metadata that hold \<open>v\<close>
  itself under the field's key.  In any stream that is read without an error, if no result
  line after that line carries the field, the metadata returned hold \<open>v\<close>: the last result
  line that carries a field decides its value.
\<close>

theorem result_round_trip:
  assumes "TrimSpace r \<noteq> []" and "Unmarshal J (TrimSpace r) = Inr pr"
    and "msgTypeOf pr = ''result''" and "map_of pr f = Some v"
    and fk: "(f, k) \<in> set [(''total_cost_usd'', ''TotalCostUSD''), (''usage'', ''Usage''),
                       (''result'', ''Result''), (''structured_output'', ''StructuredOutput'')]"
  shows "(TrimSpace a \<noteq> [] \<and> Unmarshal J (TrimSpace a) = Inr pa \<and>
          msgTypeOf pa = ''assistant'' \<and> map_of pa ''message'' = Some (JObject m) \<and>
          map_of m ''content'' =
            Some (JArray [JObject [(''type'', JString ''text''), (''text'', JString ''hi'')]]) \<and>
          (\<forall>fn. sf = Some fn \<longrightarrow> (\<forall>h. fn h ''hi'' = None)) \<and>
          stdout (MaxBufferSize (opts l)) = ([a, r], None)
          \<longrightarrow> (\<exists>st g. readStream J l stdout sf = (st, None) \<and> builder st = ''hi'' \<and>
                  generationInfo st = Some g \<and> g k = Some v)) \<and>
         (readLoop J l sf (pre @ r # post) st0 = (st', None) \<and>
          (\<forall>x \<in> set post. \<forall>p. TrimSpace x \<noteq> [] \<and> Unmarshal J (TrimSpace x) = Inr p \<and>
             msgTypeOf p = ''result'' \<longrightarrow> map_of p f = None)
          \<longrightarrow> (\<exists>g. generationInfo st' = Some g \<and> g k = Some v))"
proof (intro conjI impI)
  assume h: "TrimSpace a \<noteq> [] \<and> Unmarshal J (TrimSpace a) = Inr pa \<and>
          msgTypeOf pa = ''assistant'' \<and> map_of pa ''message'' = Some (JObject m) \<and>
          map_of m ''content'' =
            Some (JArray [JObject [(''type'', JString ''text''), (''text'', JString ''hi'')]]) \<and>
          (\<forall>fn. sf = Some fn \<longrightarrow> (\<forall>h. fn h ''hi'' = None)) \<and>
          stdout (MaxBufferSize (opts l)) = ([a, r], None)"
  have ex: "extractAssistantContent pa = ([''hi''], [], None)"
    using h extractAssistantContent_list [of pa m
        "[JObject [(''type'', JString ''text''), (''text'', JString ''hi'')]]"]
    by (simp add: stringAt_def)
  have "\<exists>s1. streamTexts sf [''hi''] initialState = (s1, None) \<and>
    builder s1 = ''hi'' \<and> generationInfo s1 = None"
    using h by (cases sf) (simp_all add: initialState_def)
  then obtain s1 where s1: "streamTexts sf [''hi''] initialState = (s1, None)"
    "builder s1 = ''hi''" "generationInfo s1 = None"
    by blast
  have la: "readLoop J l sf (a # [r]) initialState = readLoop J l sf [r] s1"
    using h ex s1(1) by (simp add: readLoop_assistant)
  have lr: "readLoop J l sf (r # []) s1 =
            (s1\<lparr>generationInfo := Some (mergeResultInfo (generationInfo s1) pr)\<rparr>, None)"
    using readLoop_result [OF assms(1,2,3), of l sf "[]" s1] by simp
  have "readStream J l stdout sf =
          (s1\<lparr>generationInfo := Some (mergeResultInfo (generationInfo s1) pr)\<rparr>, None)"
    using h la lr by (simp add: readStream_def)
  moreover have "mergeResultInfo (generationInfo s1) pr k = Some v"
    using assms(4) fk by (rule mergeResultInfo_sets)
  ultimately show "\<exists>st g. readStream J l stdout sf = (st, None) \<and> builder st = ''hi'' \<and>
                  generationInfo st = Some g \<and> g k = Some v"
    using s1(2) by simp
next
  assume h: "readLoop J l sf (pre @ r # post) st0 = (st', None) \<and>
          (\<forall>x \<in> set post. \<forall>p. TrimSpace x \<noteq> [] \<and> Unmarshal J (TrimSpace x) = Inr p \<and>
             msgTypeOf p = ''result'' \<longrightarrow> map_of p f = None)"
  obtain s1 e1 where p1: "readLoop J l sf pre st0 = (s1, e1)"
    by (cases "readLoop J l sf pre st0") auto
  have e1: "e1 = None" and rest: "readLoop J l sf (r # post) s1 = (st', None)"
    using h p1 by (auto simp: readLoop_append split: option.splits)
  have run: "readLoop J l sf post
               (s1\<lparr>generationInfo := Some (mergeResultInfo (generationInfo s1) pr)\<rparr>) = (st', None)"
    using rest readLoop_result [OF assms(1,2,3), of l sf post s1] by simp
  have set: "mergeResultInfo (generationInfo s1) pr k = Some v"
    using assms(4) fk by (rule mergeResultInfo_sets)
  have gi: "generationInfo (s1\<lparr>generationInfo := Some (mergeResultInfo (generationInfo s1) pr)\<rparr>)
              = Some (mergeResultInfo (generationInfo s1) pr)"
    by simp
  from h have quiet: "\<forall>x \<in> set post. \<forall>p. TrimSpace x \<noteq> [] \<and> Unmarshal J (TrimSpace x) = Inr p \<and>
             msgTypeOf p = ''result'' \<longrightarrow> map_of p f = None" by (rule conjunct2)
  from readLoop_keeps_field [OF quiet fk gi set run]
  show "\<exists>g. generationInfo st' = Some g \<and> g k = Some v" .
qed

lemma msgTypeOf_payloads:
  "msgTypeOf payloadHi = ''assistant''" "msgTypeOf payloadCost = ''result''"
  "msgTypeOf payloadCost2 = ''result''" "msgTypeOf payloadToolText = ''assistant''"
  "msgTypeOf payloadEmptyType = []" "msgTypeOf payloadSystem = ''system''"
  by (simp_all add: msgTypeOf_def stringAt_def payloadHi_def payloadCost_def payloadCost2_def
      payloadToolText_def payloadEmptyType_def payloadSystem_def)

theorem result_round_trip_witness:
  "(\<exists>st g. readStream json0 llm0 (\<lambda>_. ([lineHi, lineCost], None)) (Some accept0) = (st, None) \<and>
      builder st = ''hi'' \<and> generationInfo st = Some g \<and>
      g ''TotalCostUSD'' = Some (JNumber (1 / 100))) \<and>
   (\<exists>g. generationInfo
          (initialState\<lparr>generationInfo :=
             Some (mergeResultInfo (Some (mergeResultInfo None payloadCost)) payloadCost2)\<rparr>) = Some g \<and>
        g ''TotalCostUSD'' = Some (JNumber (2 / 100))) \<and>
   readLoop json0 llm0 (Some accept0) [lineCost, lineCost2, lineSystem] initialState =
     (initialState\<lparr>generationInfo :=
        Some (mergeResultInfo (Some (mergeResultInfo None payloadCost)) payloadCost2)\<rparr>, None)"
proof -
  have fk: "(''total_cost_usd'', ''TotalCostUSD'') \<in>
      set [(''total_cost_usd'', ''TotalCostUSD''), (''usage'', ''Usage''),
           (''result'', ''Result''), (''structured_output'', ''StructuredOutput'')]"
    by simp
  have r1: "TrimSpace lineCost \<noteq> []" "Unmarshal json0 (TrimSpace lineCost) = Inr payloadCost"
    "msgTypeOf payloadCost = ''result''"
    "map_of payloadCost ''total_cost_usd'' = Some (JNumber (1 / 100))"
    by (simp_all add: TrimSpace_lines lines_not_blank Unmarshal_json0 decode0_lines
        msgTypeOf_payloads) (simp add: payloadCost_def)
  have r2: "TrimSpace lineCost2 \<noteq> []" "Unmarshal json0 (TrimSpace lineCost2) = Inr payloadCost2"
    "msgTypeOf payloadCost2 = ''result''"
    "map_of payloadCost2 ''total_cost_usd'' = Some (JNumber (2 / 100))"
    by (simp_all add: TrimSpace_lines lines_not_blank Unmarshal_json0 decode0_lines
        msgTypeOf_payloads) (simp add: payloadCost2_def)
  have a: "TrimSpace lineHi \<noteq> [] \<and> Unmarshal json0 (TrimSpace lineHi) = Inr payloadHi \<and>
          msgTypeOf payloadHi = ''assistant'' \<and>
          map_of payloadHi ''message'' = Some (JObject [(''content'',
            JArray [JObject [(''type'', JString ''text''), (''text'', JString ''hi'')]])]) \<and>
          map_of [(''content'',
            JArray [JObject [(''type'', JString ''text''), (''text'', JString ''hi'')]])] ''content'' =
            Some (JArray [JObject [(''type'', JString ''text''), (''text'', JString ''hi'')]]) \<and>
          (\<forall>fn. Some accept0 = Some fn \<longrightarrow> (\<forall>h. fn h ''hi'' = None)) \<and>
          (\<lambda>_. ([lineHi, lineCost], None)) (MaxBufferSize (opts llm0)) =
            ([lineHi, lineCost], None :: string option)"
    by (simp add: TrimSpace_lines lines_not_blank Unmarshal_json0 decode0_lines
        msgTypeOf_payloads accept0_def) (simp add: payloadHi_def)
  have s: "TrimSpace lineSystem \<noteq> []" "Unmarshal json0 (TrimSpace lineSystem) = Inr payloadSystem"
    by (simp_all add: TrimSpace_lines lines_not_blank Unmarshal_json0 decode0_lines)
  have run: "readLoop json0 llm0 (Some accept0) ([lineCost] @ lineCost2 # [lineSystem]) initialState =
     (initialState\<lparr>generationInfo :=
        Some (mergeResultInfo (Some (mergeResultInfo None payloadCost)) payloadCost2)\<rparr>, None)"
    using readLoop_result [OF r1(1,2,3), of llm0 "Some accept0" "[lineCost2, lineSystem]" initialState]
      readLoop_result [OF r2(1,2,3), of llm0 "Some accept0" "[lineSystem]"
        "initialState\<lparr>generationInfo := Some (mergeResultInfo None payloadCost)\<rparr>"]
      readLoop_other_type [OF s, of llm0 "Some accept0" "[]"
        "initialState\<lparr>generationInfo :=
           Some (mergeResultInfo (Some (mergeResultInfo None payloadCost)) payloadCost2)\<rparr>"]
    by (simp add: msgTypeOf_payloads initialState_def)
  have quiet: "\<forall>x \<in> set [lineSystem]. \<forall>p. TrimSpace x \<noteq> [] \<and>
      Unmarshal json0 (TrimSpace x) = Inr p \<and> msgTypeOf p = ''result''
        \<longrightarrow> map_of p ''total_cost_usd'' = None"
    using s by (simp add: msgTypeOf_payloads)
  note first = result_round_trip [OF r1 fk, where a = lineHi and pa = payloadHi
      and m = "[(''content'',
            JArray [JObject [(''type'', JString ''text''), (''text'', JString ''hi'')]])]"
      and sf = "Some accept0" and stdout = "\<lambda>_. ([lineHi, lineCost], None)" and l = llm0]
  note last = result_round_trip [OF r2 fk, where sf = "Some accept0" and l = llm0
      and pre = "[lineCost]" and post = "[lineSystem]" and ?st0.0 = initialState
      and st' = "initialState\<lparr>generationInfo :=
        Some (mergeResultInfo (Some (mergeResultInfo None payloadCost)) payloadCost2)\<rparr>"]
  have p1: "\<exists>st g. readStream json0 llm0 (\<lambda>_. ([lineHi, lineCost], None)) (Some accept0) = (st, None) \<and>
      builder st = ''hi'' \<and> generationInfo st = Some g \<and>
      g ''TotalCostUSD'' = Some (JNumber (1 / 100))"
    by (rule mp [OF conjunct1 [OF first] a])
  have p2: "\<exists>g. generationInfo
          (initialState\<lparr>generationInfo :=
             Some (mergeResultInfo (Some (mergeResultInfo None payloadCost)) payloadCost2)\<rparr>) = Some g \<and>
        g ''TotalCostUSD'' = Some (JNumber (2 / 100))"
    by (rule mp [OF conjunct2 [OF last] conjI [OF run quiet]])
  from run have run': "readLoop json0 llm0 (Some accept0) [lineCost, lineCost2, lineSystem] initialState =
     (initialState\<lparr>generationInfo :=
        Some (mergeResultInfo (Some (mergeResultInfo None payloadCost)) payloadCost2)\<rparr>, None)"
    by simp
  from p1 p2 run' show ?thesis by (intro conjI)
qed

section \<open>Properties of the multi-message call\<close>

lemma GenerateContent_stream_error:
  assumes "splitSystemMessages messages = Inr (systemFromMessages, nonSystem)"
    and "buildPrompt nonSystem = Inr prompt"
    and "TrimSpace prompt \<noteq> []"
    and "p = run \<lparr>Path = cliPath l,
                   Args = buildCommand l prompt
                            (mergeSystemPrompt (SystemPrompt (opts l)) systemFromMessages),
                   CmdEnv = mergeEnv environ (Env (opts l)), Dir = Cwd (opts l)\<rparr>"
    and "StdoutPipeErr p = None" and "StderrPipeErr p = None" and "StartErr p = None"
    and "readStream J l (Stdout p) sf = (st, Some streamErr)"
  shows "GenerateContent J run environ (Some l) messages sf = (None, Some streamErr, calls st)"
  using assms by (simp add: GenerateContent_def Let_def)

lemma readStream_stops:
  assumes "stdout (MaxBufferSize (opts l)) = (pre @ raw # rest, scanErr)"
    and "readLoop J l sf pre initialState = (st, None)"
    and "readLoop J l sf (raw # rest) st = (st, Some e)"
  shows "readStream J l stdout sf = (st, Some e)"
  using assms by (simp add: readStream_def readLoop_append)

text \<open>
  Claim C2.  Take a call of \<^verbatim>\<open>GenerateContent\<close> that gets as far as reading the stream: the
  messages give a non-blank prompt and the pipes and the start of the subprocess succeed.
  If a line of the stream, after lines that were read without an error, is not blank and is
  malformed JSON, or is an assistant line whose content the extraction rejects, or has an
  empty type, then the call returns that error and no response: the text accumulated before
  the line is not part of what is returned.  The same holds for every error that
  \<^verbatim>\<open>readStream\<close> returns.
\<close>

theorem stream_failure_returns_only_error:
  assumes "splitSystemMessages messages = Inr (systemFromMessages, nonSystem)"
    and "buildPrompt nonSystem = Inr prompt"
    and "TrimSpace prompt \<noteq> []"
    and "p = run \<lparr>Path = cliPath l,
                   Args = buildCommand l prompt
                            (mergeSystemPrompt (SystemPrompt (opts l)) systemFromMessages),
                   CmdEnv = mergeEnv environ (Env (opts l)), Dir = Cwd (opts l)\<rparr>"
    and "StdoutPipeErr p = None" and "StderrPipeErr p = None" and "StartErr p = None"
    and "Stdout p (MaxBufferSize (opts l)) = (pre @ raw # rest, scanErr)"
    and "readLoop J l sf pre initialState = (st, None)"
    and "TrimSpace raw \<noteq> []"
  shows "(\<forall>e. Unmarshal J (TrimSpace raw) = Inl e \<longrightarrow>
            GenerateContent J run environ (Some l) messages sf =
              (None, Some (ParseJsonError e), calls st)) \<and>
         (\<forall>payload texts toolUses e.
            Unmarshal J (TrimSpace raw) = Inr payload \<and> msgTypeOf payload = ''assistant'' \<and>
            extractAssistantContent payload = (texts, toolUses, Some e) \<longrightarrow>
            GenerateContent J run environ (Some l) messages sf = (None, Some e, calls st)) \<and>
         (\<forall>payload.
            Unmarshal J (TrimSpace raw) = Inr payload \<and> msgTypeOf payload = [] \<longrightarrow>
            GenerateContent J run environ (Some l) messages sf =
              (None, Some (CliError payload), calls st)) \<and>
         (\<forall>st1 e. readStream J l (Stdout p) sf = (st1, Some e) \<longrightarrow>
            GenerateContent J run environ (Some l) messages sf = (None, Some e, calls st1))"
proof (intro conjI allI impI)
  fix e
  assume "Unmarshal J (TrimSpace raw) = Inl e"
  then have "readLoop J l sf (raw # rest) st = (st, Some (ParseJsonError e))"
    using assms(10) by (simp add: readLoop_parse_error)
  then have "readStream J l (Stdout p) sf = (st, Some (ParseJsonError e))"
    by (rule readStream_stops [where stdout = "Stdout p", OF assms(8,9)])
  then show "GenerateContent J run environ (Some l) messages sf =
              (None, Some (ParseJsonError e), calls st)"
    by (rule GenerateContent_stream_error [where run = run, OF assms(1-7)])
next
  fix payload texts toolUses e
  assume h: "Unmarshal J (TrimSpace raw) = Inr payload \<and> msgTypeOf payload = ''assistant'' \<and>
            extractAssistantContent payload = (texts, toolUses, Some e)"
  then have "readLoop J l sf (raw # rest) st = (st, Some e)"
    using assms(10) by (simp add: readLoop_assistant)
  then have "readStream J l (Stdout p) sf = (st, Some e)"
    by (rule readStream_stops [where stdout = "Stdout p", OF assms(8,9)])
  then show "GenerateContent J run environ (Some l) messages sf = (None, Some e, calls st)"
    by (rule GenerateContent_stream_error [where run = run, OF assms(1-7)])
next
  fix payload
  assume h: "Unmarshal J (TrimSpace raw) = Inr payload \<and> msgTypeOf payload = []"
  then have "readLoop J l sf (raw # rest) st = (st, Some (CliError payload))"
    using assms(10) by (simp add: readLoop_empty_type)
  then have "readStream J l (Stdout p) sf = (st, Some (CliError payload))"
    by (rule readStream_stops [where stdout = "Stdout p", OF assms(8,9)])
  then show "GenerateContent J run environ (Some l) messages sf =
              (None, Some (CliError payload), calls st)"
    by (rule GenerateContent_stream_error [where run = run, OF assms(1-7)])
next
  fix st1 e
  assume "readStream J l (Stdout p) sf = (st1, Some e)"
  then show "GenerateContent J run environ (Some l) messages sf = (None, Some e, calls st1)"
    by (rule GenerateContent_stream_error [where run = run, OF assms(1-7)])
qed

lemma readStream_bad:
  "readStream json0 llm0 (\<lambda>_. ([lineHi, lineBad, lineCost], None)) (Some accept0) =
     (state0, Some (ParseJsonError ''unexpected end of JSON input''))"
proof -
  have "readLoop json0 llm0 (Some accept0) (lineBad # [lineCost]) state0 =
          (state0, Some (ParseJsonError ''unexpected end of JSON input''))"
    by (rule readLoop_parse_error)
      (simp_all add: TrimSpace_lines lines_not_blank Unmarshal_json0 decode0_lines)
  then show ?thesis
    using readLoop_lineHi [of "[lineBad, lineCost]"] by (simp add: readStream_def)
qed

lemma prompt_msgs0:
  "splitSystemMessages msgs0 = Inr ([], msgs0)" "buildPrompt msgs0 = Inr ''User: hi''"
  "TrimSpace ''User: hi'' \<noteq> []"
    apply (simp add: msgs0_def splitSystemMessages_def)
   apply (simp add: msgs0_def buildPrompt_def messageToText_def rolePrefix_def
      TrimSpace_def stripLeading.simps leadingWidth_def spaceRunes_def)
  apply (simp add: TrimSpace_def stripLeading.simps leadingWidth_def spaceRunes_def)
  done

theorem stream_failure_returns_only_error_witness:
  "GenerateContent json0 run0 [] (Some llm0) msgs0 (Some accept0) =
     (None, Some (ParseJsonError ''unexpected end of JSON input''), calls state0) \<and>
   readLoop json0 llm0 (Some accept0) [lineHi] initialState = (state0, None) \<and>
   builder state0 = ''hi''"
proof -
  have q: "StdoutPipeErr (run0 c) = None" "StderrPipeErr (run0 c) = None"
    "StartErr (run0 c) = None"
    "Stdout (run0 c) (MaxBufferSize (opts llm0)) = ([lineHi] @ lineBad # [lineCost], None)" for c
    by (simp_all add: run0_def)
  have pre: "readLoop json0 llm0 (Some accept0) [lineHi] initialState = (state0, None)"
    using readLoop_lineHi [of "[]"] by simp
  have bad: "TrimSpace lineBad \<noteq> []"
    "Unmarshal json0 (TrimSpace lineBad) = Inl ''unexpected end of JSON input''"
    by (simp_all add: TrimSpace_lines lines_not_blank Unmarshal_json0 decode0_lines)
  have b: "builder state0 = ''hi''"
    by (simp add: state0_def)
  note inst = stream_failure_returns_only_error [where run = run0 and l = llm0 and environ = "[]" and J = json0
        and sf = "Some accept0", OF prompt_msgs0 refl q pre bad(1)]
  from inst bad(2) have "GenerateContent json0 run0 [] (Some llm0) msgs0 (Some accept0) =
     (None, Some (ParseJsonError ''unexpected end of JSON input''), calls state0)"
    by (elim conjE allE [of _ "''unexpected end of JSON input''"]) (erule mp)
  with pre b show ?thesis by (intro conjI)
qed

section \<open>The order of texts and tool events\<close>


lemma handleToolEvent_calls:
  "calls (handleToolEvent J l sf ev st) =
     calls st @ calls (handleToolEvent J l sf ev initialState)"
  by (simp add: handleToolEvent_def initialState_def Let_def split: option.splits)

lemma dispatchToolUses_calls:
  "calls (dispatchToolUses J l sf tus st) =
     calls st @
     concat (map (\<lambda>tu. calls (handleToolEvent J l sf
                \<lparr>Type = ToolEventUse, ToolName = Name tu, ToolID = ID tu, Input = tuInput tu,
                 Output = []\<rparr> initialState)) tus)"
proof (induction tus arbitrary: st)
  case Nil
  show ?case by simp
next
  case (Cons tu tus)
  show ?case
    by (simp add: Cons.IH handleToolEvent_calls [of J l sf _ st])
qed













section \<open>Properties of the command builder\<close>

lemma if_append: "(if c then xs @ ys else xs) = xs @ (if c then ys else [])"
  by simp

lemma extraLoop_concat:
  "extraLoop m keys args = args @ concat (map (\<lambda>key. extraLoop m [key] []) keys)"
proof (induction keys arbitrary: args)
  case Nil
  show ?case by simp
next
  case (Cons key keys)
  show ?case
    by (simp add: Cons.IH [of "args @ _"] Let_def)
qed

lemma buildCommand_eq:
  "buildCommand l prompt systemPrompt =
     [''--output-format'', ''stream-json'', ''--verbose''] @
     (if systemPrompt \<noteq> [] then [''--system-prompt'', systemPrompt] else []) @
     (if Tools (opts l) \<noteq> [] then [''--tools'', Join (Tools (opts l)) '',''] else []) @
     (if AllowedTools (opts l) \<noteq> []
        then [''--allowedTools'', Join (AllowedTools (opts l)) '',''] else []) @
     (if DisallowedTools (opts l) \<noteq> []
        then [''--disallowedTools'', Join (DisallowedTools (opts l)) '',''] else []) @
     (if Model (opts l) \<noteq> [] then [''--model'', Model (opts l)] else []) @
     (if PermissionMode (opts l) \<noteq> []
        then [''--permission-mode'', PermissionMode (opts l)] else []) @
     concat (map (\<lambda>key. extraLoop (ExtraArgs (opts l)) [key] [])
               (sort (map fst (ExtraArgs (opts l))))) @
     [''--print'', ''--'', prompt]"
proof -
  have e: "(if 0 < length (ExtraArgs (opts l))
            then extraLoop (ExtraArgs (opts l)) (sort (map fst (ExtraArgs (opts l)))) args
            else args) =
           args @ concat (map (\<lambda>key. extraLoop (ExtraArgs (opts l)) [key] [])
               (sort (map fst (ExtraArgs (opts l)))))" for args
    using extraLoop_concat [of "ExtraArgs (opts l)" "sort (map fst (ExtraArgs (opts l)))" args]
    by (cases "ExtraArgs (opts l)") simp_all
  show ?thesis
    unfolding buildCommand_def e if_append
    by (simp only: Let_def length_greater_0_conv append_assoc)
qed

lemma pairCount_Cons:
  "pairCount a b (x # xs) = (if xs \<noteq> [] \<and> x = a \<and> hd xs = b then 1 else 0) + pairCount a b xs"
  by (cases xs) simp_all

lemma pairCount_append:
  "pairCount a b (xs @ ys) =
     pairCount a b xs + pairCount a b ys +
     (if xs \<noteq> [] \<and> ys \<noteq> [] \<and> last xs = a \<and> hd ys = b then 1 else 0)"
proof (induction xs)
  case Nil
  show ?case by simp
next
  case (Cons x xs)
  show ?case
    by (auto simp add: pairCount_Cons Cons.IH hd_append simp del: pairCount.simps)
qed

lemma extraLoop_single:
  "extraLoop m [key] [] =
     (case map_of m key of
        Some v \<Rightarrow> if v = [] then [''--'' @ key] else [''--'' @ key, v]
      | None \<Rightarrow> [''--'' @ key])"
  by (simp add: Let_def split: option.splits)

lemma extras_hd:
  "ks \<noteq> [] \<Longrightarrow> hd (concat (map (\<lambda>key. extraLoop m [key] []) ks)) = ''--'' @ hd ks"
  by (cases ks) (simp_all add: Let_def split: option.splits)

lemma extras_Nil:
  "concat (map (\<lambda>key. extraLoop m [key] []) ks) = [] \<longleftrightarrow> ks = []"
  by (cases ks) (simp_all add: Let_def split: option.splits)

lemma extras_pairCount:
  assumes "map_of m k0 \<noteq> Some b" and "\<not> prefix ''--'' b"
  shows "pairCount (''--'' @ k0) b (concat (map (\<lambda>key. extraLoop m [key] []) ks)) = 0"
proof (induction ks)
  case Nil
  show ?case by simp
next
  case (Cons k ks)
  have one: "pairCount (''--'' @ k0) b (extraLoop m [k] []) = 0"
    using assms(1) by (auto simp: extraLoop_single split: option.splits)
  have bound: "hd (concat (map (\<lambda>key. extraLoop m [key] []) ks)) \<noteq> b" if "ks \<noteq> []"
  proof -
    have "prefix ''--'' (''--'' @ hd ks)" by simp
    with assms(2) have "''--'' @ hd ks \<noteq> b" by blast
    then show ?thesis unfolding extras_hd [OF that] .
  qed
  show ?case
  proof (cases "ks = []")
    case True
    with one show ?thesis by (simp del: extraLoop.simps)
  next
    case False
    from bound [OF False] one Cons.IH show ?thesis
      by (simp add: pairCount_append del: extraLoop.simps)
  qed
qed

lemma pairCount_tools:
  assumes "pairCount ''--tools'' ''a,b'' R = 0" and "hd R \<noteq> ''a,b''" and "R \<noteq> []"
  shows "pairCount ''--tools'' ''a,b''
     ([''--output-format'', ''stream-json'', ''--verbose''] @
      (if sp \<noteq> [] then [''--system-prompt'', sp] else []) @
      [''--tools'', ''a,b''] @ [''--allowedTools'', ''x''] @
      (if ds \<noteq> [] then [''--disallowedTools'', Join ds '',''] else []) @
      [''--model'', ''m''] @
      (if pm \<noteq> [] then [''--permission-mode'', pm] else []) @ R) = 1"
  using assms by (simp add: pairCount_Cons del: pairCount.simps)

lemma pairCount_allowedTools:
  assumes "pairCount ''--allowedTools'' ''x'' R = 0" and "hd R \<noteq> ''x''" and "R \<noteq> []"
  shows "pairCount ''--allowedTools'' ''x''
     ([''--output-format'', ''stream-json'', ''--verbose''] @
      (if sp \<noteq> [] then [''--system-prompt'', sp] else []) @
      [''--tools'', ''a,b''] @ [''--allowedTools'', ''x''] @
      (if ds \<noteq> [] then [''--disallowedTools'', Join ds '',''] else []) @
      [''--model'', ''m''] @
      (if pm \<noteq> [] then [''--permission-mode'', pm] else []) @ R) = 1"
  using assms by (simp add: pairCount_Cons del: pairCount.simps)

lemma pairCount_model:
  assumes "pairCount ''--model'' ''m'' R = 0" and "hd R \<noteq> ''m''" and "R \<noteq> []"
  shows "pairCount ''--model'' ''m''
     ([''--output-format'', ''stream-json'', ''--verbose''] @
      (if sp \<noteq> [] then [''--system-prompt'', sp] else []) @
      [''--tools'', ''a,b''] @ [''--allowedTools'', ''x''] @
      (if ds \<noteq> [] then [''--disallowedTools'', Join ds '',''] else []) @
      [''--model'', ''m''] @
      (if pm \<noteq> [] then [''--permission-mode'', pm] else []) @ R) = 1"
  using assms by (simp add: pairCount_Cons del: pairCount.simps)

lemma extras_tail:
  assumes "map_of m k0 \<noteq> Some b" and "\<not> prefix ''--'' b" and "k0 \<noteq> ''print''" and "k0 \<noteq> []"
  shows "pairCount (''--'' @ k0) b
           (concat (map (\<lambda>key. extraLoop m [key] []) ks) @ [''--print'', ''--'', prompt]) = 0"
    and "hd (concat (map (\<lambda>key. extraLoop m [key] []) ks) @ [''--print'', ''--'', prompt]) \<noteq> b"
proof -
  have b1: "b \<noteq> ''--print''" and b2: "b \<noteq> ''--''"
    using assms(2) by auto
  have t: "pairCount (''--'' @ k0) b [''--print'', ''--'', prompt] = 0"
    using assms(3,4) by simp
  show "pairCount (''--'' @ k0) b
           (concat (map (\<lambda>key. extraLoop m [key] []) ks) @ [''--print'', ''--'', prompt]) = 0"
    using extras_pairCount [OF assms(1,2), of ks] t b1
    by (simp add: pairCount_append del: pairCount.simps extraLoop.simps)
  show "hd (concat (map (\<lambda>key. extraLoop m [key] []) ks) @ [''--print'', ''--'', prompt]) \<noteq> b"
  proof (cases "ks = []")
    case True
    with b1 show ?thesis by simp
  next
    case False
    have "prefix ''--'' (''--'' @ hd ks)" by simp
    with assms(2) have "''--'' @ hd ks \<noteq> b" by blast
    then show ?thesis
      using False b1 extras_hd [OF False, of m]
      by (simp add: hd_append extras_Nil del: extraLoop.simps)
  qed
qed

text \<open>
  Claim C7, as the code has it.  With the tools \<open>a\<close> and \<open>b\<close>, the allowed tool \<open>x\<close> and the
  model \<open>m\<close> the argument vector contains \<open>--tools a,b\<close>, \<open>--allowedTools x\<close> and
  \<open>--model m\<close> in this order, and each of the three occurs exactly once as a flag followed
  by its value unless the extra arguments themselves map \<open>tools\<close> to \<open>a,b\<close>,
  \<open>allowedTools\<close> to \<open>x\<close> or \<open>model\<close> to \<open>m\<close>.  For every configuration and prompt the
  vector ends with \<open>--print\<close>, \<open>--\<close> and the prompt.
\<close>

theorem command_flags_in_order:
  "(Tools (opts l) = [''a'', ''b''] \<and> AllowedTools (opts l) = [''x''] \<and> Model (opts l) = ''m''
      \<longrightarrow> (\<exists>pre mid1 mid2 post.
             buildCommand l prompt systemPrompt =
               pre @ [''--tools'', ''a,b''] @ mid1 @ [''--allowedTools'', ''x''] @ mid2 @
               [''--model'', ''m''] @ post) \<and>
          (map_of (ExtraArgs (opts l)) ''tools'' \<noteq> Some ''a,b''
             \<longrightarrow> pairCount ''--tools'' ''a,b'' (buildCommand l prompt systemPrompt) = 1) \<and>
          (map_of (ExtraArgs (opts l)) ''allowedTools'' \<noteq> Some ''x''
             \<longrightarrow> pairCount ''--allowedTools'' ''x'' (buildCommand l prompt systemPrompt) = 1) \<and>
          (map_of (ExtraArgs (opts l)) ''model'' \<noteq> Some ''m''
             \<longrightarrow> pairCount ''--model'' ''m'' (buildCommand l prompt systemPrompt) = 1)) \<and>
   (\<exists>front. buildCommand l prompt systemPrompt = front @ [''--print'', ''--'', prompt])"
proof (intro conjI impI)
  show "\<exists>front. buildCommand l prompt systemPrompt = front @ [''--print'', ''--'', prompt]"
    by (subst buildCommand_eq) (metis append.assoc)
next
  assume h: "Tools (opts l) = [''a'', ''b''] \<and> AllowedTools (opts l) = [''x''] \<and>
             Model (opts l) = ''m''"
  define E where "E = concat (map (\<lambda>key. extraLoop (ExtraArgs (opts l)) [key] [])
               (sort (map fst (ExtraArgs (opts l)))))"
  have eq: "buildCommand l prompt systemPrompt =
      [''--output-format'', ''stream-json'', ''--verbose''] @
      (if systemPrompt \<noteq> [] then [''--system-prompt'', systemPrompt] else []) @
      [''--tools'', ''a,b''] @ [''--allowedTools'', ''x''] @
      (if DisallowedTools (opts l) \<noteq> []
         then [''--disallowedTools'', Join (DisallowedTools (opts l)) '',''] else []) @
      [''--model'', ''m''] @
      (if PermissionMode (opts l) \<noteq> []
         then [''--permission-mode'', PermissionMode (opts l)] else []) @
      E @ [''--print'', ''--'', prompt]"
    using h by (simp add: buildCommand_eq E_def del: extraLoop.simps)
  have "buildCommand l prompt systemPrompt =
      ([''--output-format'', ''stream-json'', ''--verbose''] @
       (if systemPrompt \<noteq> [] then [''--system-prompt'', systemPrompt] else [])) @
      [''--tools'', ''a,b''] @ [] @ [''--allowedTools'', ''x''] @
      (if DisallowedTools (opts l) \<noteq> []
         then [''--disallowedTools'', Join (DisallowedTools (opts l)) '',''] else []) @
      [''--model'', ''m''] @
      ((if PermissionMode (opts l) \<noteq> []
         then [''--permission-mode'', PermissionMode (opts l)] else []) @
       E @ [''--print'', ''--'', prompt])"
    by (simp only: eq append_assoc append_Nil)
  then show "\<exists>pre mid1 mid2 post.
             buildCommand l prompt systemPrompt =
               pre @ [''--tools'', ''a,b''] @ mid1 @ [''--allowedTools'', ''x''] @ mid2 @
               [''--model'', ''m''] @ post"
    by (intro exI)
  {
    assume x: "map_of (ExtraArgs (opts l)) ''tools'' \<noteq> Some ''a,b''"
    have "pairCount ''--tools'' ''a,b'' (E @ [''--print'', ''--'', prompt]) = 0"
      and "hd (E @ [''--print'', ''--'', prompt]) \<noteq> ''a,b''"
      using extras_tail [OF x, of "sort (map fst (ExtraArgs (opts l)))" prompt]
      by (simp_all add: E_def del: extraLoop.simps)
    then show "pairCount ''--tools'' ''a,b'' (buildCommand l prompt systemPrompt) = 1"
      unfolding eq by (intro pairCount_tools) simp_all
  }
  {
    assume x: "map_of (ExtraArgs (opts l)) ''allowedTools'' \<noteq> Some ''x''"
    have "pairCount ''--allowedTools'' ''x'' (E @ [''--print'', ''--'', prompt]) = 0"
      and "hd (E @ [''--print'', ''--'', prompt]) \<noteq> ''x''"
      using extras_tail [OF x, of "sort (map fst (ExtraArgs (opts l)))" prompt]
      by (simp_all add: E_def del: extraLoop.simps)
    then show "pairCount ''--allowedTools'' ''x'' (buildCommand l prompt systemPrompt) = 1"
      unfolding eq by (intro pairCount_allowedTools) simp_all
  }
  {
    assume x: "map_of (ExtraArgs (opts l)) ''model'' \<noteq> Some ''m''"
    have "pairCount ''--model'' ''m'' (E @ [''--print'', ''--'', prompt]) = 0"
      and "hd (E @ [''--print'', ''--'', prompt]) \<noteq> ''m''"
      using extras_tail [OF x, of "sort (map fst (ExtraArgs (opts l)))" prompt]
      by (simp_all add: E_def del: extraLoop.simps)
    then show "pairCount ''--model'' ''m'' (buildCommand l prompt systemPrompt) = 1"
      unfolding eq by (intro pairCount_model) simp_all
  }
qed

lemma extraLoop_map_of_cong:
  "map_of m = map_of m' \<Longrightarrow> extraLoop m ks args = extraLoop m' ks args"
  by (induction ks arbitrary: args) (simp_all add: Let_def)

lemma sorted_keys_eq:
  assumes "distinct (map fst m)" and "distinct (map fst m')" and "map_of m = map_of m'"
  shows "sort (map fst m) = sort (map fst m')"
proof -
  have "set (map fst m) = dom (map_of m)" and "set (map fst m') = dom (map_of m')"
    by (simp_all add: dom_map_of_conv_image_fst)
  with assms(3) have "set (sort (map fst m)) = set (sort (map fst m'))"
    by simp
  moreover have "distinct (sort (map fst m))" and "distinct (sort (map fst m'))"
    using assms(1,2) by simp_all
  ultimately show ?thesis
    by (intro sorted_distinct_set_unique) simp_all
qed

lemma sorted_a_z: "sorted [''a'', ''z'']"
  by simp

text \<open>
  Claim C8.  The extra arguments (a map, so with distinct keys) add, between the arguments
  built without them and the closing \<open>--print -- prompt\<close>, one group per key in sorted key
  order: the bare flag for a key whose value is the empty string, the flag followed by the
  value otherwise.  Two association lists of the same map, whatever their order, give the
  same argument vector, and the map from \<open>z\<close> to \<open>1\<close> and \<open>a\<close> to the empty string gives
  \<open>--a --z 1\<close>.
\<close>

theorem extra_args_sorted:
  assumes "distinct (map fst (ExtraArgs (opts l)))"
  shows "\<exists>front ks.
     buildCommand (l\<lparr>opts := (opts l)\<lparr>ExtraArgs := []\<rparr>\<rparr>) prompt systemPrompt =
       front @ [''--print'', ''--'', prompt] \<and>
     buildCommand l prompt systemPrompt =
       front @
       concat (map (\<lambda>k. case map_of (ExtraArgs (opts l)) k of
                           Some v \<Rightarrow> if v = [] then [''--'' @ k] else [''--'' @ k, v]
                         | None \<Rightarrow> [''--'' @ k]) ks) @
       [''--print'', ''--'', prompt] \<and>
     sorted ks \<and> distinct ks \<and> set ks = fst ` set (ExtraArgs (opts l)) \<and>
     (\<forall>m'. distinct (map fst m') \<and> map_of m' = map_of (ExtraArgs (opts l)) \<longrightarrow>
        buildCommand (l\<lparr>opts := (opts l)\<lparr>ExtraArgs := m'\<rparr>\<rparr>) prompt systemPrompt =
        buildCommand l prompt systemPrompt) \<and>
     (map_of (ExtraArgs (opts l)) = [''z'' \<mapsto> ''1'', ''a'' \<mapsto> []] \<longrightarrow>
        buildCommand l prompt systemPrompt =
          front @ [''--a'', ''--z'', ''1'', ''--print'', ''--'', prompt])"
proof -
  define m where "m = ExtraArgs (opts l)"
  define ks where "ks = sort (map fst m)"
  define front where "front =
     [''--output-format'', ''stream-json'', ''--verbose''] @
     (if systemPrompt \<noteq> [] then [''--system-prompt'', systemPrompt] else []) @
     (if Tools (opts l) \<noteq> [] then [''--tools'', Join (Tools (opts l)) '',''] else []) @
     (if AllowedTools (opts l) \<noteq> []
        then [''--allowedTools'', Join (AllowedTools (opts l)) '',''] else []) @
     (if DisallowedTools (opts l) \<noteq> []
        then [''--disallowedTools'', Join (DisallowedTools (opts l)) '',''] else []) @
     (if Model (opts l) \<noteq> [] then [''--model'', Model (opts l)] else []) @
     (if PermissionMode (opts l) \<noteq> []
        then [''--permission-mode'', PermissionMode (opts l)] else [])"
  have with_extras: "buildCommand (l\<lparr>opts := (opts l)\<lparr>ExtraArgs := m'\<rparr>\<rparr>) prompt systemPrompt =
      front @ concat (map (\<lambda>key. extraLoop m' [key] []) (sort (map fst m'))) @
      [''--print'', ''--'', prompt]" for m'
    by (simp add: buildCommand_eq front_def del: extraLoop.simps)
  have a: "buildCommand (l\<lparr>opts := (opts l)\<lparr>ExtraArgs := []\<rparr>\<rparr>) prompt systemPrompt =
       front @ [''--print'', ''--'', prompt]"
    using with_extras [of "[]"] by simp
  have l: "l\<lparr>opts := (opts l)\<lparr>ExtraArgs := m\<rparr>\<rparr> = l"
    by (simp add: m_def)
  have emit: "(\<lambda>key. extraLoop m [key] []) =
        (\<lambda>k. case map_of m k of
                Some v \<Rightarrow> if v = [] then [''--'' @ k] else [''--'' @ k, v]
              | None \<Rightarrow> [''--'' @ k])"
    by (rule ext) (rule extraLoop_single)
  have b: "buildCommand l prompt systemPrompt =
       front @
       concat (map (\<lambda>k. case map_of m k of
                           Some v \<Rightarrow> if v = [] then [''--'' @ k] else [''--'' @ k, v]
                         | None \<Rightarrow> [''--'' @ k]) ks) @
       [''--print'', ''--'', prompt]"
    using with_extras [of m] by (simp only: l emit ks_def)
  have c: "sorted ks \<and> distinct ks \<and> set ks = fst ` set m"
    using assms by (simp add: ks_def m_def)
  have d: "buildCommand (l\<lparr>opts := (opts l)\<lparr>ExtraArgs := m'\<rparr>\<rparr>) prompt systemPrompt =
        buildCommand l prompt systemPrompt"
    if h: "distinct (map fst m') \<and> map_of m' = map_of m" for m'
  proof -
    have k: "sort (map fst m') = sort (map fst m)"
      using h assms by (intro sorted_keys_eq) (simp_all add: m_def)
    have "(\<lambda>key. extraLoop m' [key] []) = (\<lambda>key. extraLoop m [key] [])"
      using h by (intro ext extraLoop_map_of_cong) simp
    then show ?thesis
      using with_extras [of m'] with_extras [of m] k by (simp only: l)
  qed
  have e: "buildCommand l prompt systemPrompt =
          front @ [''--a'', ''--z'', ''1'', ''--print'', ''--'', prompt]"
    if h: "map_of m = [''z'' \<mapsto> ''1'', ''a'' \<mapsto> []]"
  proof -
    have "set ks = dom (map_of m)"
      using c by (simp add: dom_map_of_conv_image_fst)
    then have "set ks = set [''a'', ''z'']"
      using h by auto
    then have "ks = [''a'', ''z'']"
      using c sorted_a_z by (intro sorted_distinct_set_unique) simp_all
    then show ?thesis
      using b h by simp
  qed
  from a b c d e show ?thesis
    unfolding m_def [symmetric] by blast
qed

lemma buildCommand_llmTools:
  "buildCommand llmTools ''hello'' [] =
     [''--output-format'', ''stream-json'', ''--verbose'', ''--tools'', ''a,b'',
      ''--allowedTools'', ''x'', ''--model'', ''m'', ''--permission-mode'', ''bypassPermissions'',
      ''--print'', ''--'', ''hello'']"
  by (simp add: buildCommand_def llmTools_def defaultOptions_def defaultPermissionMode_def)

theorem command_flags_in_order_witness:
  "Tools (opts llmTools) = [''a'', ''b''] \<and> AllowedTools (opts llmTools) = [''x''] \<and>
   Model (opts llmTools) = ''m'' \<and>
   buildCommand llmTools ''hello'' [] =
     [''--output-format'', ''stream-json'', ''--verbose'', ''--tools'', ''a,b'',
      ''--allowedTools'', ''x'', ''--model'', ''m'', ''--permission-mode'', ''bypassPermissions'',
      ''--print'', ''--'', ''hello''] \<and>
   pairCount ''--tools'' ''a,b'' (buildCommand llmTools ''hello'' []) = 1 \<and>
   pairCount ''--allowedTools'' ''x'' (buildCommand llmTools ''hello'' []) = 1 \<and>
   pairCount ''--model'' ''m'' (buildCommand llmTools ''hello'' []) = 1"
proof -
  have h1: "Tools (opts llmTools) = [''a'', ''b'']" and h2: "AllowedTools (opts llmTools) = [''x'']"
    and h3: "Model (opts llmTools) = ''m''"
    by (simp_all add: llmTools_def)
  have x: "map_of (ExtraArgs (opts llmTools)) ''tools'' \<noteq> Some ''a,b''"
    "map_of (ExtraArgs (opts llmTools)) ''allowedTools'' \<noteq> Some ''x''"
    "map_of (ExtraArgs (opts llmTools)) ''model'' \<noteq> Some ''m''"
    by (simp_all add: llmTools_def defaultOptions_def)
  note t = mp [OF conjunct1 [OF command_flags_in_order [of llmTools "''hello''" "[]"]] conjI [OF h1 conjI [OF h2 h3]]]
  have c1: "pairCount ''--tools'' ''a,b'' (buildCommand llmTools ''hello'' []) = 1"
    by (rule mp [OF conjunct1 [OF conjunct2 [OF t]] x(1)])
  have c2: "pairCount ''--allowedTools'' ''x'' (buildCommand llmTools ''hello'' []) = 1"
    by (rule mp [OF conjunct1 [OF conjunct2 [OF conjunct2 [OF t]]] x(2)])
  have c3: "pairCount ''--model'' ''m'' (buildCommand llmTools ''hello'' []) = 1"
    by (rule mp [OF conjunct2 [OF conjunct2 [OF conjunct2 [OF t]]] x(3)])
  from h1 h2 h3 buildCommand_llmTools c1 c2 c3 show ?thesis by (intro conjI)
qed

text \<open>
  Claim C7 as stated fails: with the extra arguments mapping \<open>model\<close> to \<open>m\<close> the vector
  contains \<open>--model m\<close> twice.
\<close>

theorem duplicate_flag_counterexample:
  "Tools (opts llmDup) = [''a'', ''b''] \<and> AllowedTools (opts llmDup) = [''x''] \<and>
   Model (opts llmDup) = ''m'' \<and>
   buildCommand llmDup ''hello'' [] =
     [''--output-format'', ''stream-json'', ''--verbose'', ''--tools'', ''a,b'',
      ''--allowedTools'', ''x'', ''--model'', ''m'', ''--permission-mode'', ''bypassPermissions'',
      ''--model'', ''m'', ''--print'', ''--'', ''hello''] \<and>
   pairCount ''--model'' ''m'' (buildCommand llmDup ''hello'' []) = 2"
  by (simp add: buildCommand_def llmDup_def defaultOptions_def defaultPermissionMode_def)

theorem extra_args_sorted_witness:
  "distinct (map fst (ExtraArgs (opts llmExtra))) \<and>
   ExtraArgs (opts llmExtra) = [(''z'', ''1''), (''a'', [])] \<and>
   buildCommand llmExtra ''hello'' [] =
     [''--output-format'', ''stream-json'', ''--verbose'',
      ''--permission-mode'', ''bypassPermissions'',
      ''--a'', ''--z'', ''1'', ''--print'', ''--'', ''hello''] \<and>
   buildCommand (llmExtra\<lparr>opts := (opts llmExtra)\<lparr>ExtraArgs := [(''a'', []), (''z'', ''1'')]\<rparr>\<rparr>)
       ''hello'' [] =
     buildCommand llmExtra ''hello'' []"
proof -
  have d: "distinct (map fst (ExtraArgs (opts llmExtra)))"
    and x: "ExtraArgs (opts llmExtra) = [(''z'', ''1''), (''a'', [])]"
    by (simp_all add: llmExtra_def)
  have base: "buildCommand (llmExtra\<lparr>opts := (opts llmExtra)\<lparr>ExtraArgs := []\<rparr>\<rparr>) ''hello'' [] =
      [''--output-format'', ''stream-json'', ''--verbose'',
       ''--permission-mode'', ''bypassPermissions''] @ [''--print'', ''--'', ''hello'']"
    by (simp add: buildCommand_def llmExtra_def defaultOptions_def defaultPermissionMode_def)
  have mz: "map_of (ExtraArgs (opts llmExtra)) = [''z'' \<mapsto> ''1'', ''a'' \<mapsto> []]"
    by (rule ext) (simp add: x)
  have m': "distinct (map fst [(''a'', []), (''z'', ''1'')]) \<and>
            map_of [(''a'', []), (''z'', ''1'')] = map_of (ExtraArgs (opts llmExtra))"
    by (simp add: x) (rule ext, simp)
  have "buildCommand llmExtra ''hello'' [] =
     [''--output-format'', ''stream-json'', ''--verbose'',
      ''--permission-mode'', ''bypassPermissions'',
      ''--a'', ''--z'', ''1'', ''--print'', ''--'', ''hello''] \<and>
     buildCommand
       (llmExtra\<lparr>opts := (opts llmExtra)\<lparr>ExtraArgs := [(''a'', []), (''z'', ''1'')]\<rparr>\<rparr>)
       ''hello'' [] = buildCommand llmExtra ''hello'' []"
    using extra_args_sorted [OF d, of "''hello''" "[]"]
  proof (elim exE conjE)
    fix front ks
    assume f: "buildCommand (llmExtra\<lparr>opts := (opts llmExtra)\<lparr>ExtraArgs := []\<rparr>\<rparr>) ''hello'' [] =
          front @ [''--print'', ''--'', ''hello'']"
      and det: "\<forall>m'. distinct (map fst m') \<and> map_of m' = map_of (ExtraArgs (opts llmExtra)) \<longrightarrow>
        buildCommand (llmExtra\<lparr>opts := (opts llmExtra)\<lparr>ExtraArgs := m'\<rparr>\<rparr>) ''hello'' [] =
        buildCommand llmExtra ''hello'' []"
      and az: "map_of (ExtraArgs (opts llmExtra)) = [''z'' \<mapsto> ''1'', ''a'' \<mapsto> []] \<longrightarrow>
        buildCommand llmExtra ''hello'' [] =
          front @ [''--a'', ''--z'', ''1'', ''--print'', ''--'', ''hello'']"
    from f base have fr: "front = [''--output-format'', ''stream-json'', ''--verbose'',
       ''--permission-mode'', ''bypassPermissions'']"
      by simp
    from az mz have "buildCommand llmExtra ''hello'' [] =
          front @ [''--a'', ''--z'', ''1'', ''--print'', ''--'', ''hello'']"
      by (rule mp)
    then have v: "buildCommand llmExtra ''hello'' [] =
     [''--output-format'', ''stream-json'', ''--verbose'',
      ''--permission-mode'', ''bypassPermissions'',
      ''--a'', ''--z'', ''1'', ''--print'', ''--'', ''hello'']"
      by (simp add: fr)
    from det have "distinct (map fst [(''a'', []), (''z'', ''1'')]) \<and>
            map_of [(''a'', []), (''z'', ''1'')] = map_of (ExtraArgs (opts llmExtra)) \<longrightarrow>
        buildCommand
          (llmExtra\<lparr>opts := (opts llmExtra)\<lparr>ExtraArgs := [(''a'', []), (''z'', ''1'')]\<rparr>\<rparr>)
          ''hello'' [] = buildCommand llmExtra ''hello'' []"
      by (rule spec)
    from this m' have s: "buildCommand
          (llmExtra\<lparr>opts := (opts llmExtra)\<lparr>ExtraArgs := [(''a'', []), (''z'', ''1'')]\<rparr>\<rparr>)
          ''hello'' [] = buildCommand llmExtra ''hello'' []"
      by (rule mp)
    from v s show ?thesis by (rule conjI)
  qed
  then have v: "buildCommand llmExtra ''hello'' [] =
     [''--output-format'', ''stream-json'', ''--verbose'',
      ''--permission-mode'', ''bypassPermissions'',
      ''--a'', ''--z'', ''1'', ''--print'', ''--'', ''hello'']"
    and s: "buildCommand
       (llmExtra\<lparr>opts := (opts llmExtra)\<lparr>ExtraArgs := [(''a'', []), (''z'', ''1'')]\<rparr>\<rparr>)
       ''hello'' [] = buildCommand llmExtra ''hello'' []"
    by (rule conjunct1, rule conjunct2)
  from d x v s show ?thesis by (intro conjI)
qed

end
